theory Spec2Isabelle
  imports Complex_Main
begin

section \<open>Conventions of the embedding\<close>

text \<open>
  The kernels of \<^verbatim>\<open>ideas/sailfish0.6.py\<close> are C functions over \<^verbatim>\<open>double\<close>; the
  embedding reads a \<^verbatim>\<open>double\<close> as a \<^typ>\<open>real\<close>, so rounding, infinities, NaN and the
  sign of zero are outside the model. A zone holds \<^verbatim>\<open>NCONS\<close> numbers and is a list of
  reals; a numpy array of shape \<^verbatim>\<open>[ni] x NCONS\<close> is a list of zones, and one of shape
  \<^verbatim>\<open>[ni, nj] x NCONS\<close> is a list of rows of zones.
\<close>

type_synonym cell = "real list"
type_synonym arr = "cell list"
type_synonym arr2 = "cell list list"

datatype error = ValueError | AttributeError | UnboundLocalError | NullPointer

section \<open>Slope limiter\<close>

text \<open>
  The macros of \<^verbatim>\<open>plm_minmod\<close>. \<^verbatim>\<open>sign(x)\<close> is \<^verbatim>\<open>copysign(1.0, x)\<close>: it is \<open>1\<close> at
  (positive) zero, and the reals have no negative zero.
\<close>

definition min2 :: "real \<Rightarrow> real \<Rightarrow> real" where
  "min2 a b = (if a < b then a else b)"

definition min3 :: "real \<Rightarrow> real \<Rightarrow> real \<Rightarrow> real" where
  "min3 a b c = min2 a (min2 b c)"

definition sign :: "real \<Rightarrow> real" where
  "sign x = (if x < 0 then - 1 else 1)"

definition minabs :: "real \<Rightarrow> real \<Rightarrow> real \<Rightarrow> real" where
  "minabs a b c = min3 \<bar>a\<bar> \<bar>b\<bar> \<bar>c\<bar>"

definition plm_minmod :: "real \<Rightarrow> real \<Rightarrow> real \<Rightarrow> real \<Rightarrow> real" where
  "plm_minmod yl yc yr plm_theta =
     (let a = (yc - yl) * plm_theta;
          b = (yr - yl) * 0.5;
          c = (yr - yc) * plm_theta
      in 0.25 * \<bar>sign a + sign b\<bar> * (sign a + sign c) * minabs a b c)"

section \<open>Grid geometry\<close>

text \<open>
  \<^verbatim>\<open>numpy.linspace(start, stop, num)\<close> with its default \<^verbatim>\<open>endpoint=True\<close>: \<^verbatim>\<open>num\<close>
  samples, the first at \<^verbatim>\<open>start\<close>, the step \<^verbatim>\<open>(stop - start) / (num - 1)\<close>; a single
  sample is \<^verbatim>\<open>start\<close>, and no sample is the empty array.
\<close>

definition linspace :: "real \<Rightarrow> real \<Rightarrow> nat \<Rightarrow> real list" where
  "linspace start stop num =
     (if num = 1 then [start]
      else map (\<lambda>k. start + real k * ((stop - start) / real (num - 1))) [0..<num])"

text \<open>
  \<^verbatim>\<open>xv[1:]\<close> drops the first vertex, \<^verbatim>\<open>xv[:-1]\<close> the last one; both have the same
  length, and the sum and the product are taken element by element.
\<close>

definition cell_centers_1d :: "nat \<Rightarrow> real list" where
  "cell_centers_1d ni =
     (let xv = linspace 0.0 1.0 ni;
          xc = map2 (\<lambda>a b. 0.5 * (a + b)) (drop 1 xv) (butlast xv)
      in xc)"

section \<open>Kernel support\<close>

text \<open>
  The device functions \<^verbatim>\<open>prim_to_cons\<close>, \<^verbatim>\<open>cons_to_prim\<close> and \<^verbatim>\<open>riemann_hlle\<close> come
  from the module \<^verbatim>\<open>lib_euler\<close>, which is not among the sources. The kernels below take
  them as parameters: a zone to a zone, and a left state, a right state and an axis to a
  flux. Every statement about the kernels holds for any such three functions.
\<close>

record euler_lib =
  prim_to_cons :: "cell \<Rightarrow> cell"
  cons_to_prim :: "cell \<Rightarrow> cell"
  riemann_hlle :: "cell \<Rightarrow> cell \<Rightarrow> nat \<Rightarrow> cell"

text \<open>
  Modelled from the spec: the macro \<^verbatim>\<open>NCONS\<close> of the kernel sources, whose definition is
  not among the sources. The spec gives three numbers per zone in one dimension and four
  in two.
\<close>

definition NCONS :: "nat \<Rightarrow> nat" where
  "NCONS DIM = DIM + 2"

text \<open>
  Modelled from the spec: the loop macros \<^verbatim>\<open>FOR_RANGE_1D(a, b)\<close>, \<^verbatim>\<open>FOR_RANGE_2D(a, b, c, d)\<close>
  and \<^verbatim>\<open>FOR_EACH_1D(n)\<close> of the module \<^verbatim>\<open>new_kernels\<close>, which is not among the sources.
  The body runs once for every index \<open>i\<close> of \<open>[a, b)\<close> (and \<open>j\<close> of \<open>[c, d)\<close>), respectively
  of \<open>[0, n)\<close>. The bounds are C integers; a bound \<^verbatim>\<open>ni - 2\<close> below the start gives an empty
  range, as the truncated subtraction of the naturals does. Each body below writes the
  slot of its own index only, so running the indices in order is running them in parallel.
\<close>

definition FOR_RANGE_1D :: "nat \<Rightarrow> nat \<Rightarrow> (nat \<Rightarrow> 's \<Rightarrow> 's) \<Rightarrow> 's \<Rightarrow> 's" where
  "FOR_RANGE_1D a b body s = fold body [a..<b] s"

definition FOR_RANGE_2D ::
  "nat \<Rightarrow> nat \<Rightarrow> nat \<Rightarrow> nat \<Rightarrow> (nat \<Rightarrow> nat \<Rightarrow> 's \<Rightarrow> 's) \<Rightarrow> 's \<Rightarrow> 's" where
  "FOR_RANGE_2D a b c d body s = fold (\<lambda>i. fold (\<lambda>j. body i j) [c..<d]) [a..<b] s"

definition FOR_EACH_1D :: "nat \<Rightarrow> (nat \<Rightarrow> 's \<Rightarrow> 's) \<Rightarrow> 's \<Rightarrow> 's" where
  "FOR_EACH_1D n body s = fold body [0..<n] s"

text \<open>
  A kernel class instance: the two flags that \<^verbatim>\<open>define_macros\<close> turns into the macros
  \<^verbatim>\<open>RUNGE_KUTTA\<close> and \<^verbatim>\<open>PLM\<close>.
\<close>

record solver =
  runge_kutta :: bool
  plm :: bool

text \<open>
  The loop over \<^verbatim>\<open>q\<close> that ends every update kernel: the flux difference \<open>dF q\<close> is
  subtracted, and with \<^verbatim>\<open>RUNGE_KUTTA == 1\<close> the result is scaled by \<^verbatim>\<open>1.0 - rk\<close> and
  \<^verbatim>\<open>rk * urk[...]\<close> is added. The last argument is \<open>None\<close> where the macro removes the
  blend, and the stage parameter with the zone of \<^verbatim>\<open>urk\<close> otherwise.
\<close>

definition update_cons ::
  "nat \<Rightarrow> cell \<Rightarrow> (nat \<Rightarrow> real) \<Rightarrow> real \<Rightarrow> real \<Rightarrow> (real \<times> cell) option \<Rightarrow> cell" where
  "update_cons n uc dF dt dx blend =
     map (\<lambda>q.
       let u = uc ! q - dF q * dt / dx
       in case blend of
            None \<Rightarrow> u
          | Some (rk, urk_c) \<Rightarrow> u * (1.0 - rk) + rk * urk_c ! q) [0..<n]"

text \<open>
  The \<^verbatim>\<open>urk\<close> argument of an update kernel is \<^verbatim>\<open>None\<close> on the forward Euler path. A
  kernel compiled with \<^verbatim>\<open>RUNGE_KUTTA == 1\<close> reads it, and one handed no buffer fails; the
  drivers never do that.
\<close>

definition blend_of ::
  "solver \<Rightarrow> arr option \<Rightarrow> real \<Rightarrow> error + (nat \<Rightarrow> (real \<times> cell) option)" where
  "blend_of s urk rk =
     (if runge_kutta s then
        (case urk of
           None \<Rightarrow> Inl NullPointer
         | Some u \<Rightarrow> Inr (\<lambda>i. Some (rk, u ! i)))
      else Inr (\<lambda>i. None))"

section \<open>Flux-per-face solver\<close>

text \<open>
  The body of \<^verbatim>\<open>compute_godunov_fluxes\<close> at index \<open>i\<close>: the two states at the face
  between the zones \<open>i\<close> and \<open>i + 1\<close>, and the flux \<^verbatim>\<open>riemann_hlle(pm, pp, fh, 1)\<close>.
\<close>

definition face_states :: "solver \<Rightarrow> arr \<Rightarrow> real \<Rightarrow> nat \<Rightarrow> cell \<times> cell" where
  "face_states s p plm_theta i =
     (if \<not> plm s then
        (let pc = p ! (i + 0); pr = p ! (i + 1)
         in (map (\<lambda>q. pc ! q) [0..<NCONS 1], map (\<lambda>q. pr ! q) [0..<NCONS 1]))
      else
        (let pl = p ! (i - 1); pc = p ! (i + 0); pr = p ! (i + 1); ps = p ! (i + 2)
         in (map (\<lambda>q. pc ! q + 0.5 * plm_minmod (pl ! q) (pc ! q) (pr ! q) plm_theta)
               [0..<NCONS 1],
             map (\<lambda>q. pr ! q - 0.5 * plm_minmod (pc ! q) (pr ! q) (ps ! q) plm_theta)
               [0..<NCONS 1])))"

definition face_flux :: "euler_lib \<Rightarrow> solver \<Rightarrow> arr \<Rightarrow> real \<Rightarrow> nat \<Rightarrow> cell" where
  "face_flux lib s p plm_theta i =
     (let (pm, pp) = face_states s p plm_theta i in riemann_hlle lib pm pp 1)"

definition FluxPerFaceSolver_compute_godunov_fluxes ::
  "euler_lib \<Rightarrow> solver \<Rightarrow> arr \<Rightarrow> arr \<Rightarrow> real \<Rightarrow> arr" where
  "FluxPerFaceSolver_compute_godunov_fluxes lib s p f plm_theta =
     (let ni = length p
      in FOR_RANGE_1D 1 (ni - 2) (\<lambda>i f. f[i + 1 := face_flux lib s p plm_theta i]) f)"

text \<open>
  The body of the per-face \<^verbatim>\<open>update_prim\<close> at index \<open>i\<close>, from the zone \<^verbatim>\<open>pc\<close> it
  overwrites. The kernel writes three numbers per zone, and its \<^verbatim>\<open>ni\<close> is
  \<^verbatim>\<open>p.size // 3\<close>, the number of zones of \<^verbatim>\<open>p\<close>.
\<close>

definition face_update ::
  "euler_lib \<Rightarrow> arr \<Rightarrow> real \<Rightarrow> real \<Rightarrow> (real \<times> cell) option \<Rightarrow> nat \<Rightarrow> cell \<Rightarrow> cell" where
  "face_update lib f dt dx blend i pc =
     (let fm = f ! (i + 0);
          fp = f ! (i + 1);
          uc = prim_to_cons lib pc
      in cons_to_prim lib (update_cons 3 uc (\<lambda>q. fp ! q - fm ! q) dt dx blend))"

definition FluxPerFaceSolver_update_prim ::
  "euler_lib \<Rightarrow> solver \<Rightarrow> arr \<Rightarrow> arr \<Rightarrow> arr option \<Rightarrow> real \<Rightarrow> real \<Rightarrow> real
     \<Rightarrow> error + arr" where
  "FluxPerFaceSolver_update_prim lib s p f urk dt dx rk =
     (case blend_of s urk rk of
        Inl e \<Rightarrow> Inl e
      | Inr blend \<Rightarrow>
          Inr (let ni = length p
               in FOR_RANGE_1D 2 (ni - 2)
                    (\<lambda>i p. p[i := face_update lib f dt dx (blend i) i (p ! i)]) p))"

text \<open>
  \<^verbatim>\<open>prim_to_cons_array\<close>, the same kernel in both one-dimensional classes: it fills the
  zones \<open>[1, ni - 1)\<close> of \<^verbatim>\<open>u\<close>.
\<close>

definition prim_to_cons_array :: "euler_lib \<Rightarrow> arr \<Rightarrow> arr \<Rightarrow> arr" where
  "prim_to_cons_array lib p u =
     (let ni = length p
      in FOR_RANGE_1D 1 (ni - 1) (\<lambda>i u. u[i := prim_to_cons lib (p ! i)]) u)"

section \<open>Flux-per-zone solver\<close>

text \<open>
  The four face-biased states of zone \<open>i\<close>: \<^verbatim>\<open>plp\<close>, \<^verbatim>\<open>pcm\<close>, \<^verbatim>\<open>pcp\<close>, \<^verbatim>\<open>prm\<close>.
\<close>

definition zone_states :: "solver \<Rightarrow> arr \<Rightarrow> real \<Rightarrow> nat \<Rightarrow> cell \<times> cell \<times> cell \<times> cell" where
  "zone_states s prd plm_theta i =
     (if \<not> plm s then
        (let pl = prd ! (i - 1); pc = prd ! (i + 0); pr = prd ! (i + 1)
         in (map (\<lambda>q. pl ! q) [0..<NCONS 1],
             map (\<lambda>q. pc ! q) [0..<NCONS 1],
             map (\<lambda>q. pc ! q) [0..<NCONS 1],
             map (\<lambda>q. pr ! q) [0..<NCONS 1]))
      else
        (let pk = prd ! (i - 2); pl = prd ! (i - 1); pc = prd ! (i + 0);
             pr = prd ! (i + 1); ps = prd ! (i + 2);
             gl = (\<lambda>q. plm_minmod (pk ! q) (pl ! q) (pc ! q) plm_theta);
             gc = (\<lambda>q. plm_minmod (pl ! q) (pc ! q) (pr ! q) plm_theta);
             gr = (\<lambda>q. plm_minmod (pc ! q) (pr ! q) (ps ! q) plm_theta)
         in (map (\<lambda>q. pl ! q + 0.5 * gl q) [0..<NCONS 1],
             map (\<lambda>q. pc ! q - 0.5 * gc q) [0..<NCONS 1],
             map (\<lambda>q. pc ! q + 0.5 * gc q) [0..<NCONS 1],
             map (\<lambda>q. pr ! q - 0.5 * gr q) [0..<NCONS 1])))"

definition zone_update ::
  "euler_lib \<Rightarrow> solver \<Rightarrow> arr \<Rightarrow> real \<Rightarrow> real \<Rightarrow> real \<Rightarrow> (real \<times> cell) option \<Rightarrow> nat
     \<Rightarrow> cell" where
  "zone_update lib s prd dt dx plm_theta blend i =
     (let (plp, pcm, pcp, prm) = zone_states s prd plm_theta i;
          fm = riemann_hlle lib plp pcm 1;
          fp = riemann_hlle lib pcp prm 1;
          uc = prim_to_cons lib (prd ! (i + 0))
      in cons_to_prim lib (update_cons (NCONS 1) uc (\<lambda>q. fp ! q - fm ! q) dt dx blend))"

definition FluxPerZoneSolver_update_prim ::
  "euler_lib \<Rightarrow> solver \<Rightarrow> arr \<Rightarrow> arr \<Rightarrow> arr option \<Rightarrow> real \<Rightarrow> real \<Rightarrow> real \<Rightarrow> real
     \<Rightarrow> error + arr" where
  "FluxPerZoneSolver_update_prim lib s prd pwr urk dt dx rk plm_theta =
     (case blend_of s urk rk of
        Inl e \<Rightarrow> Inl e
      | Inr blend \<Rightarrow>
          Inr (let ni = length prd
               in FOR_RANGE_1D 2 (ni - 2)
                    (\<lambda>i pwr. pwr[i := zone_update lib s prd dt dx plm_theta (blend i) i])
                    pwr))"

section \<open>Flux-per-zone solver in two dimensions\<close>

text \<open>
  The kernel addresses zone \<open>(i, j)\<close> at \<^verbatim>\<open>i * si + j * sj\<close> with \<^verbatim>\<open>si = NCONS * nj\<close> and
  \<^verbatim>\<open>sj = NCONS\<close>, which is zone \<open>j\<close> of row \<open>i\<close>. \<^verbatim>\<open>shape[1]\<close> is the length of a row.
\<close>

definition shape1 :: "arr2 \<Rightarrow> nat" where
  "shape1 p = (case p of [] \<Rightarrow> 0 | row # _ \<Rightarrow> length row)"

definition zone_states2d ::
  "solver \<Rightarrow> arr2 \<Rightarrow> real \<Rightarrow> nat \<Rightarrow> nat
     \<Rightarrow> (cell \<times> cell \<times> cell \<times> cell) \<times> (cell \<times> cell \<times> cell \<times> cell)" where
  "zone_states2d s prd plm_theta i j =
     (if \<not> plm s then
        (let pcc = prd ! (i + 0) ! (j + 0);
             plc = prd ! (i - 1) ! (j + 0);
             prc = prd ! (i + 1) ! (j + 0);
             pcl = prd ! (i + 0) ! (j - 1);
             pcr = prd ! (i + 0) ! (j + 1)
         in ((map (\<lambda>q. plc ! q) [0..<NCONS 2],
              map (\<lambda>q. pcc ! q) [0..<NCONS 2],
              map (\<lambda>q. pcc ! q) [0..<NCONS 2],
              map (\<lambda>q. prc ! q) [0..<NCONS 2]),
             (map (\<lambda>q. pcl ! q) [0..<NCONS 2],
              map (\<lambda>q. pcc ! q) [0..<NCONS 2],
              map (\<lambda>q. pcc ! q) [0..<NCONS 2],
              map (\<lambda>q. pcr ! q) [0..<NCONS 2])))
      else
        (let pcc = prd ! (i + 0) ! (j + 0);
             pkc = prd ! (i - 2) ! (j + 0);
             plc = prd ! (i - 1) ! (j + 0);
             prc = prd ! (i + 1) ! (j + 0);
             psc = prd ! (i + 2) ! (j + 0);
             pck = prd ! (i + 0) ! (j - 2);
             pcl = prd ! (i + 0) ! (j - 1);
             pcr = prd ! (i + 0) ! (j + 1);
             pcs = prd ! (i + 0) ! (j + 2);
             gil = (\<lambda>q. plm_minmod (pkc ! q) (plc ! q) (pcc ! q) plm_theta);
             gic = (\<lambda>q. plm_minmod (plc ! q) (pcc ! q) (prc ! q) plm_theta);
             gir = (\<lambda>q. plm_minmod (pcc ! q) (prc ! q) (psc ! q) plm_theta);
             gjl = (\<lambda>q. plm_minmod (pck ! q) (pcl ! q) (pcc ! q) plm_theta);
             gjc = (\<lambda>q. plm_minmod (pcl ! q) (pcc ! q) (pcr ! q) plm_theta);
             gjr = (\<lambda>q. plm_minmod (pcc ! q) (pcr ! q) (pcs ! q) plm_theta)
         in ((map (\<lambda>q. plc ! q + 0.5 * gil q) [0..<NCONS 2],
              map (\<lambda>q. pcc ! q - 0.5 * gic q) [0..<NCONS 2],
              map (\<lambda>q. pcc ! q + 0.5 * gic q) [0..<NCONS 2],
              map (\<lambda>q. prc ! q - 0.5 * gir q) [0..<NCONS 2]),
             (map (\<lambda>q. pcl ! q + 0.5 * gjl q) [0..<NCONS 2],
              map (\<lambda>q. pcc ! q - 0.5 * gjc q) [0..<NCONS 2],
              map (\<lambda>q. pcc ! q + 0.5 * gjc q) [0..<NCONS 2],
              map (\<lambda>q. pcr ! q - 0.5 * gjr q) [0..<NCONS 2]))))"

definition zone_update2d ::
  "euler_lib \<Rightarrow> solver \<Rightarrow> arr2 \<Rightarrow> real \<Rightarrow> real \<Rightarrow> real \<Rightarrow> (real \<times> cell) option
     \<Rightarrow> nat \<Rightarrow> nat \<Rightarrow> cell" where
  "zone_update2d lib s prd dt dx plm_theta blend i j =
     (let ((pilp, picm, picp, pirm), (pjlp, pjcm, pjcp, pjrm)) =
            zone_states2d s prd plm_theta i j;
          fm = riemann_hlle lib pilp picm 1;
          fp = riemann_hlle lib picp pirm 1;
          gm = riemann_hlle lib pjlp pjcm 2;
          gp = riemann_hlle lib pjcp pjrm 2;
          ucc = prim_to_cons lib (prd ! (i + 0) ! (j + 0))
      in cons_to_prim lib
           (update_cons (NCONS 2) ucc (\<lambda>q. fp ! q - fm ! q + gp ! q - gm ! q) dt dx blend))"

definition blend_of2d ::
  "solver \<Rightarrow> arr2 option \<Rightarrow> real \<Rightarrow> error + (nat \<Rightarrow> nat \<Rightarrow> (real \<times> cell) option)" where
  "blend_of2d s urk rk =
     (if runge_kutta s then
        (case urk of
           None \<Rightarrow> Inl NullPointer
         | Some u \<Rightarrow> Inr (\<lambda>i j. Some (rk, u ! i ! j)))
      else Inr (\<lambda>i j. None))"

definition FluxPerZoneSolver2D_update_prim ::
  "euler_lib \<Rightarrow> solver \<Rightarrow> arr2 \<Rightarrow> arr2 \<Rightarrow> arr2 option \<Rightarrow> real \<Rightarrow> real \<Rightarrow> real \<Rightarrow> real
     \<Rightarrow> error + arr2" where
  "FluxPerZoneSolver2D_update_prim lib s prd pwr urk dt dx rk plm_theta =
     (case blend_of2d s urk rk of
        Inl e \<Rightarrow> Inl e
      | Inr blend \<Rightarrow>
          Inr (let ni = length prd; nj = shape1 prd
               in FOR_RANGE_2D 2 (ni - 2) 2 (nj - 2)
                    (\<lambda>i j pwr.
                       pwr[i := (pwr ! i)
                                  [j := zone_update2d lib s prd dt dx plm_theta (blend i j) i j]])
                    pwr))"

text \<open>
  The two-dimensional \<^verbatim>\<open>prim_to_cons_array\<close> runs over all \<^verbatim>\<open>p.size // nq\<close> zones of the
  flat array; zone \<open>c\<close> is zone \<open>c mod nj\<close> of row \<open>c div nj\<close>.
\<close>

definition prim_to_cons_array2d :: "euler_lib \<Rightarrow> arr2 \<Rightarrow> arr2 \<Rightarrow> arr2" where
  "prim_to_cons_array2d lib p u =
     (let nj = shape1 p; ni = length p * nj
      in FOR_EACH_1D ni
           (\<lambda>c u. let i = c div nj; j = c mod nj
                  in u[i := (u ! i)[j := prim_to_cons lib (p ! i ! j)]]) u)"

section \<open>Solver registry\<close>

record solver_class =
  fwd_pcm :: solver
  rkn_pcm :: solver
  fwd_plm :: solver
  rkn_plm :: solver

text \<open>
  \<^verbatim>\<open>SolverClass.get\<close>. With a known reconstruction and a time integration that is none of
  the four, the Python function falls off its end and returns \<^verbatim>\<open>None\<close>.
\<close>

definition SolverClass_get :: "solver_class \<Rightarrow> string \<Rightarrow> string \<Rightarrow> error + solver option" where
  "SolverClass_get cls time_integration reconstruction =
     (if reconstruction = ''pcm'' then
        (if time_integration = ''fwd'' then Inr (Some (fwd_pcm cls))
         else if time_integration \<in> set [''rk1'', ''rk2'', ''rk3''] then Inr (Some (rkn_pcm cls))
         else Inr None)
      else if reconstruction = ''plm'' then
        (if time_integration = ''fwd'' then Inr (Some (fwd_plm cls))
         else if time_integration \<in> set [''rk1'', ''rk2'', ''rk3''] then Inr (Some (rkn_plm cls))
         else Inr None)
      else Inl ValueError)"

text \<open>
  The three registries \<^verbatim>\<open>FPFSolvers\<close>, \<^verbatim>\<open>FPZSolvers\<close> and \<^verbatim>\<open>FPZSolvers2D\<close> after their
  \<^verbatim>\<open>init\<close>, which the driver runs first. They hold the same four pairs of flags; the
  class of the instances decides which kernels a driver calls.
\<close>

definition FPFSolvers :: solver_class where
  "FPFSolvers =
     \<lparr>fwd_pcm = \<lparr>runge_kutta = False, plm = False\<rparr>,
      rkn_pcm = \<lparr>runge_kutta = True, plm = False\<rparr>,
      fwd_plm = \<lparr>runge_kutta = False, plm = True\<rparr>,
      rkn_plm = \<lparr>runge_kutta = True, plm = True\<rparr>\<rparr>"

definition FPZSolvers :: solver_class where
  "FPZSolvers =
     \<lparr>fwd_pcm = \<lparr>runge_kutta = False, plm = False\<rparr>,
      rkn_pcm = \<lparr>runge_kutta = True, plm = False\<rparr>,
      fwd_plm = \<lparr>runge_kutta = False, plm = True\<rparr>,
      rkn_plm = \<lparr>runge_kutta = True, plm = True\<rparr>\<rparr>"

definition FPZSolvers2D :: solver_class where
  "FPZSolvers2D =
     \<lparr>fwd_pcm = \<lparr>runge_kutta = False, plm = False\<rparr>,
      rkn_pcm = \<lparr>runge_kutta = True, plm = False\<rparr>,
      fwd_plm = \<lparr>runge_kutta = False, plm = True\<rparr>,
      rkn_plm = \<lparr>runge_kutta = True, plm = True\<rparr>\<rparr>"

section \<open>Drivers\<close>

datatype array_module = Numpy | Cupy

text \<open>
  \<^verbatim>\<open>numpy_or_cupy\<close> returns \<^verbatim>\<open>None\<close> for an execution mode that is neither \<^verbatim>\<open>gpu\<close> nor
  \<^verbatim>\<open>cpu\<close>; the two array modules behave alike here.
\<close>

definition numpy_or_cupy :: "string \<Rightarrow> array_module option" where
  "numpy_or_cupy exec_mode =
     (if exec_mode = ''gpu'' then Some Cupy
      else if exec_mode = ''cpu'' then Some Numpy
      else None)"

text \<open>
  \<^verbatim>\<open>xp.empty_like(p)\<close> allocates an array of the shape of \<^verbatim>\<open>p\<close> and does not
  initialise it: its contents \<open>mem\<close> are arbitrary. On \<^verbatim>\<open>None\<close> the attribute lookup fails.
\<close>

definition empty_like :: "array_module option \<Rightarrow> (nat \<Rightarrow> cell) \<Rightarrow> arr \<Rightarrow> error + arr" where
  "empty_like xp mem p =
     (case xp of
        None \<Rightarrow> Inl AttributeError
      | Some _ \<Rightarrow> Inr (map mem [0..<length p]))"

definition empty_like2d ::
  "array_module option \<Rightarrow> (nat \<Rightarrow> nat \<Rightarrow> cell) \<Rightarrow> arr2 \<Rightarrow> error + arr2" where
  "empty_like2d xp mem p =
     (case xp of
        None \<Rightarrow> Inl AttributeError
      | Some _ \<Rightarrow> Inr (map (\<lambda>i. map (mem i) [0..<length (p ! i)]) [0..<length p]))"

text \<open>
  The stage coefficients chosen at the head of both drivers. \<^verbatim>\<open>fwd\<close> binds no list.
\<close>

definition rk_stages :: "string \<Rightarrow> error + real list option" where
  "rk_stages time_integration =
     (if time_integration = ''fwd'' then Inr None
      else if time_integration = ''rk1'' then Inr (Some [0.0])
      else if time_integration = ''rk2'' then Inr (Some [0.0, 0.5])
      else if time_integration = ''rk3'' then Inr (Some [0.0, 3.0 / 4.0, 1.0 / 3.0])
      else Inl ValueError)"

text \<open>
  What a call of a driver leaves behind: the contents of the caller's array \<^verbatim>\<open>p\<close> when
  the call ends, the number of kernels launched, and the array returned or the error
  raised.
\<close>

record 'a run =
  caller_p :: 'a
  launches :: nat
  outcome :: "error + 'a"

text \<open>The per-face path updates \<^verbatim>\<open>p\<close> in place, stage after stage, and returns it.\<close>

fun per_face_stages ::
  "euler_lib \<Rightarrow> solver \<Rightarrow> arr \<Rightarrow> real \<Rightarrow> real \<Rightarrow> real \<Rightarrow> real list \<Rightarrow> arr \<times> arr \<times> nat
     \<Rightarrow> arr run" where
  "per_face_stages lib s urk dt dx plm_theta [] (p, f, n) =
     \<lparr>caller_p = p, launches = n, outcome = Inr p\<rparr>"
| "per_face_stages lib s urk dt dx plm_theta (rk # rks) (p, f, n) =
     (let f1 = FluxPerFaceSolver_compute_godunov_fluxes lib s p f plm_theta
      in case FluxPerFaceSolver_update_prim lib s p f1 (Some urk) dt dx rk of
           Inl e \<Rightarrow> \<lparr>caller_p = p, launches = n + 2, outcome = Inl e\<rparr>
         | Inr p1 \<Rightarrow> per_face_stages lib s urk dt dx plm_theta rks (p1, f1, n + 2))"

definition update_prim_per_face ::
  "euler_lib \<Rightarrow> (nat \<Rightarrow> nat \<Rightarrow> cell) \<Rightarrow> array_module option \<Rightarrow> real list option \<Rightarrow> arr
     \<Rightarrow> real \<Rightarrow> real \<Rightarrow> string \<Rightarrow> real \<Rightarrow> string \<Rightarrow> arr run" where
  "update_prim_per_face lib mem xp rks p dt dx reconstruction plm_theta time_integration =
     (case SolverClass_get FPFSolvers time_integration reconstruction of
        Inl e \<Rightarrow> \<lparr>caller_p = p, launches = 0, outcome = Inl e\<rparr>
      | Inr None \<Rightarrow> \<lparr>caller_p = p, launches = 0, outcome = Inl AttributeError\<rparr>
      | Inr (Some solver) \<Rightarrow>
          (case empty_like xp (mem 0) p of
             Inl e \<Rightarrow> \<lparr>caller_p = p, launches = 0, outcome = Inl e\<rparr>
           | Inr f \<Rightarrow>
               if time_integration = ''fwd'' then
                 (let f1 = FluxPerFaceSolver_compute_godunov_fluxes lib solver p f plm_theta
                  in case FluxPerFaceSolver_update_prim lib solver p f1 None dt dx 0.0 of
                       Inl e \<Rightarrow> \<lparr>caller_p = p, launches = 2, outcome = Inl e\<rparr>
                     | Inr p1 \<Rightarrow> \<lparr>caller_p = p1, launches = 2, outcome = Inr p1\<rparr>)
               else
                 (case empty_like xp (mem 1) p of
                    Inl e \<Rightarrow> \<lparr>caller_p = p, launches = 0, outcome = Inl e\<rparr>
                  | Inr urk0 \<Rightarrow>
                      (let urk = prim_to_cons_array lib p urk0
                       in case rks of
                            None \<Rightarrow>
                              \<lparr>caller_p = p, launches = 1, outcome = Inl UnboundLocalError\<rparr>
                          | Some rs \<Rightarrow>
                              per_face_stages lib solver urk dt dx plm_theta rs (p, f, 1)))))"

text \<open>
  The per-zone path reads \<^verbatim>\<open>prd\<close> and writes \<^verbatim>\<open>pwr\<close>, and swaps the two names after
  every stage. \<^verbatim>\<open>prd\<close> starts as the caller's array and \<^verbatim>\<open>pwr\<close> as a copy of it; the
  flag says whether \<^verbatim>\<open>prd\<close> is the caller's array at the moment. The path returns
  \<^verbatim>\<open>prd\<close>.
\<close>

fun per_zone_stages ::
  "euler_lib \<Rightarrow> solver \<Rightarrow> arr \<Rightarrow> real \<Rightarrow> real \<Rightarrow> real \<Rightarrow> real list
     \<Rightarrow> arr \<times> arr \<times> bool \<times> nat \<Rightarrow> arr run" where
  "per_zone_stages lib s urk dt dx plm_theta [] (prd, pwr, prd_is_p, n) =
     \<lparr>caller_p = (if prd_is_p then prd else pwr), launches = n, outcome = Inr prd\<rparr>"
| "per_zone_stages lib s urk dt dx plm_theta (rk # rks) (prd, pwr, prd_is_p, n) =
     (case FluxPerZoneSolver_update_prim lib s prd pwr (Some urk) dt dx rk plm_theta of
        Inl e \<Rightarrow>
          \<lparr>caller_p = (if prd_is_p then prd else pwr), launches = n + 1, outcome = Inl e\<rparr>
      | Inr pwr1 \<Rightarrow>
          per_zone_stages lib s urk dt dx plm_theta rks (pwr1, prd, \<not> prd_is_p, n + 1))"

definition update_prim_per_zone ::
  "euler_lib \<Rightarrow> (nat \<Rightarrow> nat \<Rightarrow> cell) \<Rightarrow> array_module option \<Rightarrow> real list option \<Rightarrow> arr
     \<Rightarrow> real \<Rightarrow> real \<Rightarrow> string \<Rightarrow> real \<Rightarrow> string \<Rightarrow> arr run" where
  "update_prim_per_zone lib mem xp rks p dt dx reconstruction plm_theta time_integration =
     (case SolverClass_get FPZSolvers time_integration reconstruction of
        Inl e \<Rightarrow> \<lparr>caller_p = p, launches = 0, outcome = Inl e\<rparr>
      | Inr None \<Rightarrow> \<lparr>caller_p = p, launches = 0, outcome = Inl AttributeError\<rparr>
      | Inr (Some solver) \<Rightarrow>
          (let prd = p; pwr = p
           in if time_integration = ''fwd'' then
                (case FluxPerZoneSolver_update_prim lib solver prd pwr None dt dx 0.0
                        plm_theta of
                   Inl e \<Rightarrow> \<lparr>caller_p = p, launches = 1, outcome = Inl e\<rparr>
                 | Inr pwr1 \<Rightarrow> \<lparr>caller_p = prd, launches = 1, outcome = Inr pwr1\<rparr>)
              else
                (case empty_like xp (mem 0) prd of
                   Inl e \<Rightarrow> \<lparr>caller_p = p, launches = 0, outcome = Inl e\<rparr>
                 | Inr urk0 \<Rightarrow>
                     (let urk = prim_to_cons_array lib prd urk0
                      in case rks of
                           None \<Rightarrow>
                             \<lparr>caller_p = p, launches = 1, outcome = Inl UnboundLocalError\<rparr>
                         | Some rs \<Rightarrow>
                             per_zone_stages lib solver urk dt dx plm_theta rs
                               (prd, pwr, True, 1)))))"

definition update_prim ::
  "euler_lib \<Rightarrow> (nat \<Rightarrow> nat \<Rightarrow> cell) \<Rightarrow> arr \<Rightarrow> real \<Rightarrow> real \<Rightarrow> string \<Rightarrow> string \<Rightarrow> real
     \<Rightarrow> string \<Rightarrow> string \<Rightarrow> arr run" where
  "update_prim lib mem p dt dx fluxing reconstruction plm_theta time_integration exec_mode =
     (let xp = numpy_or_cupy exec_mode
      in case rk_stages time_integration of
           Inl e \<Rightarrow> \<lparr>caller_p = p, launches = 0, outcome = Inl e\<rparr>
         | Inr rks \<Rightarrow>
             if fluxing = ''per_face'' then
               update_prim_per_face lib mem xp rks p dt dx reconstruction plm_theta
                 time_integration
             else if fluxing = ''per_zone'' then
               update_prim_per_zone lib mem xp rks p dt dx reconstruction plm_theta
                 time_integration
             else \<lparr>caller_p = p, launches = 0, outcome = Inl ValueError\<rparr>)"

text \<open>The two-dimensional driver has the per-zone path only.\<close>

fun per_zone_stages2d ::
  "euler_lib \<Rightarrow> solver \<Rightarrow> arr2 \<Rightarrow> real \<Rightarrow> real \<Rightarrow> real \<Rightarrow> real list
     \<Rightarrow> arr2 \<times> arr2 \<times> bool \<times> nat \<Rightarrow> arr2 run" where
  "per_zone_stages2d lib s urk dt dx plm_theta [] (prd, pwr, prd_is_p, n) =
     \<lparr>caller_p = (if prd_is_p then prd else pwr), launches = n, outcome = Inr prd\<rparr>"
| "per_zone_stages2d lib s urk dt dx plm_theta (rk # rks) (prd, pwr, prd_is_p, n) =
     (case FluxPerZoneSolver2D_update_prim lib s prd pwr (Some urk) dt dx rk plm_theta of
        Inl e \<Rightarrow>
          \<lparr>caller_p = (if prd_is_p then prd else pwr), launches = n + 1, outcome = Inl e\<rparr>
      | Inr pwr1 \<Rightarrow>
          per_zone_stages2d lib s urk dt dx plm_theta rks (pwr1, prd, \<not> prd_is_p, n + 1))"

definition update_prim2d ::
  "euler_lib \<Rightarrow> (nat \<Rightarrow> nat \<Rightarrow> cell) \<Rightarrow> arr2 \<Rightarrow> real \<Rightarrow> real \<Rightarrow> string \<Rightarrow> string \<Rightarrow> real
     \<Rightarrow> string \<Rightarrow> string \<Rightarrow> arr2 run" where
  "update_prim2d lib mem p dt dx fluxing reconstruction plm_theta time_integration exec_mode =
     (let xp = numpy_or_cupy exec_mode
      in case rk_stages time_integration of
           Inl e \<Rightarrow> \<lparr>caller_p = p, launches = 0, outcome = Inl e\<rparr>
         | Inr rks \<Rightarrow>
             if fluxing \<noteq> ''per_zone'' then
               \<lparr>caller_p = p, launches = 0, outcome = Inl ValueError\<rparr>
             else
               (case SolverClass_get FPZSolvers2D time_integration reconstruction of
                  Inl e \<Rightarrow> \<lparr>caller_p = p, launches = 0, outcome = Inl e\<rparr>
                | Inr None \<Rightarrow> \<lparr>caller_p = p, launches = 0, outcome = Inl AttributeError\<rparr>
                | Inr (Some solver) \<Rightarrow>
                    (let prd = p; pwr = p
                     in if time_integration = ''fwd'' then
                          (case FluxPerZoneSolver2D_update_prim lib solver prd pwr None dt dx
                                  0.0 plm_theta of
                             Inl e \<Rightarrow> \<lparr>caller_p = p, launches = 1, outcome = Inl e\<rparr>
                           | Inr pwr1 \<Rightarrow>
                               \<lparr>caller_p = prd, launches = 1, outcome = Inr pwr1\<rparr>)
                        else
                          (case empty_like2d xp mem prd of
                             Inl e \<Rightarrow> \<lparr>caller_p = p, launches = 0, outcome = Inl e\<rparr>
                           | Inr urk0 \<Rightarrow>
                               (let urk = prim_to_cons_array2d lib prd urk0
                                in case rks of
                                     None \<Rightarrow>
                                       \<lparr>caller_p = p, launches = 1,
                                        outcome = Inl UnboundLocalError\<rparr>
                                   | Some rs \<Rightarrow>
                                       per_zone_stages2d lib solver urk dt dx plm_theta rs
                                         (prd, pwr, True, 1))))))"

section \<open>Stages, zone by zone\<close>

text \<open>
  The interior zones of an array of \<open>ni\<close> zones are those of \<open>[2, ni - 2)\<close>; the others
  are guard zones.
\<close>

definition interior :: "nat \<Rightarrow> nat \<Rightarrow> bool" where
  "interior ni i = (2 \<le> i \<and> i + 2 < ni)"

text \<open>
  The blend of a Runge-Kutta stage with coefficient \<open>\<alpha>\<close> against the conserved state of
  the array \<open>p0\<close> the step started from.
\<close>

definition frozen_blend :: "euler_lib \<Rightarrow> arr \<Rightarrow> real \<Rightarrow> nat \<Rightarrow> (real \<times> cell) option" where
  "frozen_blend lib p0 \<alpha> i = Some (\<alpha>, prim_to_cons lib (p0 ! i))"

definition no_blend :: "nat \<Rightarrow> (real \<times> cell) option" where
  "no_blend i = None"

text \<open>
  One stage of the per-zone path as a map over the zones of \<open>P\<close>: an interior zone is
  replaced by its update, a guard zone is kept.
\<close>

definition zone_stage ::
  "euler_lib \<Rightarrow> solver \<Rightarrow> (nat \<Rightarrow> (real \<times> cell) option) \<Rightarrow> real \<Rightarrow> real \<Rightarrow> real \<Rightarrow> arr
     \<Rightarrow> arr" where
  "zone_stage lib s blend dt dx plm_theta P =
     map (\<lambda>i. if interior (length P) i
               then zone_update lib s P dt dx plm_theta (blend i) i
               else P ! i) [0..<length P]"

text \<open>
  One stage of the per-face path as a map over the zones of \<open>P\<close>: the flux through the
  face between the zones \<open>i\<close> and \<open>i + 1\<close> is \<open>face_flux lib s P plm_theta i\<close>, and an
  interior zone loses the difference of the fluxes through its two faces.
\<close>

definition face_stage ::
  "euler_lib \<Rightarrow> solver \<Rightarrow> (nat \<Rightarrow> (real \<times> cell) option) \<Rightarrow> real \<Rightarrow> real \<Rightarrow> real \<Rightarrow> arr
     \<Rightarrow> arr" where
  "face_stage lib s blend dt dx plm_theta P =
     map (\<lambda>i. if interior (length P) i
               then cons_to_prim lib
                      (update_cons 3 (prim_to_cons lib (P ! i))
                         (\<lambda>q. face_flux lib s P plm_theta i ! q
                               - face_flux lib s P plm_theta (i - 1) ! q)
                         dt dx (blend i))
               else P ! i) [0..<length P]"

text \<open>
  The two states of the face between the zones \<open>j\<close> and \<open>j + 1\<close> of \<open>P\<close>, in the words of
  the spec: with PCM the face takes zone \<open>j\<close> on its left and zone \<open>j + 1\<close> on its right;
  with PLM the left state is zone \<open>j\<close> plus half its limited slope and the right state is
  zone \<open>j + 1\<close> minus half its limited slope, where the limited slope of zone \<open>c\<close> is
  the limiter of the zones \<open>c - 1\<close>, \<open>c\<close>, \<open>c + 1\<close>, component by component.
\<close>

definition left_state :: "bool \<Rightarrow> arr \<Rightarrow> real \<Rightarrow> nat \<Rightarrow> cell" where
  "left_state plm_on P plm_theta j =
     map (\<lambda>q. if plm_on
               then P ! j ! q
                    + 0.5 * plm_minmod (P ! (j - 1) ! q) (P ! j ! q) (P ! (j + 1) ! q) plm_theta
               else P ! j ! q) [0..<3]"

definition right_state :: "bool \<Rightarrow> arr \<Rightarrow> real \<Rightarrow> nat \<Rightarrow> cell" where
  "right_state plm_on P plm_theta j =
     map (\<lambda>q. if plm_on
               then P ! (j + 1) ! q
                    - 0.5 * plm_minmod (P ! j ! q) (P ! (j + 1) ! q) (P ! (j + 2) ! q) plm_theta
               else P ! (j + 1) ! q) [0..<3]"

text \<open>The Godunov flux through that face.\<close>

definition godunov_flux :: "euler_lib \<Rightarrow> bool \<Rightarrow> arr \<Rightarrow> real \<Rightarrow> nat \<Rightarrow> cell" where
  "godunov_flux lib plm_on P plm_theta j =
     riemann_hlle lib (left_state plm_on P plm_theta j) (right_state plm_on P plm_theta j) 1"

text \<open>
  One Runge-Kutta stage with coefficient \<open>\<alpha>\<close>, in the words of the spec: an interior zone
  \<open>i\<close> of \<open>P\<close> is converted to conserved variables, loses the difference of the fluxes
  through its two faces times \<open>dt / dx\<close>, is blended as \<open>(1 - \<alpha>) * u + \<alpha> * U_rk[i]\<close> with
  \<open>U_rk[i]\<close> the conserved state of zone \<open>i\<close> of the array \<open>p0\<close> the step started from,
  and is converted back; a guard zone is kept. These definitions do not use the kernels
  above.
\<close>

definition rk_stage ::
  "euler_lib \<Rightarrow> bool \<Rightarrow> arr \<Rightarrow> real \<Rightarrow> real \<Rightarrow> real \<Rightarrow> real \<Rightarrow> arr \<Rightarrow> arr" where
  "rk_stage lib plm_on p0 dt dx plm_theta \<alpha> P =
     map (\<lambda>i. if 2 \<le> i \<and> i + 2 < length P
               then cons_to_prim lib
                      (map (\<lambda>q. (1 - \<alpha>)
                                 * (prim_to_cons lib (P ! i) ! q
                                    - (godunov_flux lib plm_on P plm_theta i ! q
                                       - godunov_flux lib plm_on P plm_theta (i - 1) ! q)
                                      * dt / dx)
                                 + \<alpha> * prim_to_cons lib (p0 ! i) ! q) [0..<3])
               else P ! i) [0..<length P]"

section \<open>SRHD patches\<close>

text \<open>
  The entry points of the native library \<^verbatim>\<open>srhd_1d\<close>, which is not among the sources,
  are parameters. Modelled from the spec: which buffer an entry point writes. Each
  function below returns the new contents of that buffer: the \<^verbatim>\<open>conserved\<close> argument of
  \<^verbatim>\<open>srhd_1d_primitive_to_conserved\<close>, the \<^verbatim>\<open>primitive\<close> argument of
  \<^verbatim>\<open>srhd_1d_conserved_to_primitive\<close>, and the last conserved buffer (\<open>U\<^sub>2\<close>) of
  \<^verbatim>\<open>srhd_1d_advance_rk\<close>. The arguments come in the order of the calls.
\<close>

record srhd_lib =
  srhd_1d_primitive_to_conserved :: "nat \<Rightarrow> real list \<Rightarrow> arr \<Rightarrow> arr \<Rightarrow> real \<Rightarrow> nat \<Rightarrow> arr"
  srhd_1d_conserved_to_primitive :: "nat \<Rightarrow> real list \<Rightarrow> arr \<Rightarrow> arr \<Rightarrow> real \<Rightarrow> nat \<Rightarrow> arr"
  srhd_1d_advance_rk ::
    "nat \<Rightarrow> real list \<Rightarrow> arr \<Rightarrow> arr \<Rightarrow> arr \<Rightarrow> arr \<Rightarrow> real \<Rightarrow> real \<Rightarrow> real \<Rightarrow> real \<Rightarrow> real
       \<Rightarrow> nat \<Rightarrow> arr"

text \<open>The fields of a \<^verbatim>\<open>Patch\<close>; \<^verbatim>\<open>coordinates\<close> is 0 for cartesian and 1 for spherical.\<close>

record patch =
  num_zones :: nat
  faces :: "real list"
  coordinates :: nat
  scale_factor_initial :: real
  scale_factor_derivative :: real
  time :: real
  time0 :: real
  primitive1 :: arr
  conserved0 :: arr
  conserved1 :: arr
  conserved2 :: arr

definition scale_factor :: "patch \<Rightarrow> real" where
  "scale_factor self = scale_factor_initial self + scale_factor_derivative self * time self"

definition recompute_primitive :: "srhd_lib \<Rightarrow> patch \<Rightarrow> patch" where
  "recompute_primitive lib self =
     self\<lparr>primitive1 :=
            srhd_1d_conserved_to_primitive lib (num_zones self) (faces self) (conserved1 self)
              (primitive1 self) (scale_factor self) (coordinates self)\<rparr>"

text \<open>
  \<^verbatim>\<open>Patch.advance_rk\<close>: the primitives are recomputed, the kernel writes \<^verbatim>\<open>conserved2\<close>,
  the time is set from \<^verbatim>\<open>time0\<close>, and the names \<^verbatim>\<open>conserved1\<close> and \<^verbatim>\<open>conserved2\<close> are
  exchanged.
\<close>

definition Patch_advance_rk :: "srhd_lib \<Rightarrow> patch \<Rightarrow> real \<Rightarrow> real \<Rightarrow> patch" where
  "Patch_advance_rk lib self rk_param dt =
     (let s1 = recompute_primitive lib self;
          s2 = s1\<lparr>conserved2 :=
                    srhd_1d_advance_rk lib (num_zones s1) (faces s1) (conserved0 s1)
                      (primitive1 s1) (conserved1 s1) (conserved2 s1)
                      (scale_factor_initial s1) (scale_factor_derivative s1) (time s1)
                      rk_param dt (coordinates s1)\<rparr>;
          s3 = s2\<lparr>time := time0 s2 * rk_param + (time0 s2 + dt) * (1.0 - rk_param)\<rparr>
      in s3\<lparr>conserved1 := conserved2 s3, conserved2 := conserved1 s3\<rparr>)"

definition new_timestep :: "patch \<Rightarrow> patch" where
  "new_timestep self = self\<lparr>time0 := time self, conserved0 := conserved1 self\<rparr>"

section \<open>SRHD boundary exchange\<close>

text \<open>
  A bound \<open>i\<close> of a Python slice over \<open>n\<close> rows: a negative bound counts from the end,
  and every bound is clipped to \<open>[0, n]\<close>. A missing bound is \<open>None\<close>.
\<close>

definition slice_bound :: "nat \<Rightarrow> int \<Rightarrow> nat" where
  "slice_bound n i = (if i < 0 then nat (max 0 (int n + i)) else min n (nat i))"

definition slice_range :: "nat \<Rightarrow> int option \<Rightarrow> int option \<Rightarrow> nat \<times> nat" where
  "slice_range n lo hi =
     (let a = (case lo of None \<Rightarrow> 0 | Some i \<Rightarrow> slice_bound n i);
          b = (case hi of None \<Rightarrow> n | Some j \<Rightarrow> slice_bound n j)
      in (a, b - a))"

definition py_slice :: "'a list \<Rightarrow> int option \<Rightarrow> int option \<Rightarrow> 'a list" where
  "py_slice xs lo hi = (let (a, m) = slice_range (length xs) lo hi in take m (drop a xs))"

text \<open>
  \<^verbatim>\<open>xs[lo:hi] = v\<close> on numpy arrays of rows: the rows of \<open>v\<close> replace the rows of the
  slice when there are as many, a single row is broadcast over the slice, and any other
  shape raises \<^verbatim>\<open>ValueError\<close>.
\<close>

definition assign_slice :: "'a list \<Rightarrow> int option \<Rightarrow> int option \<Rightarrow> 'a list \<Rightarrow> error + 'a list" where
  "assign_slice xs lo hi v =
     (let (a, m) = slice_range (length xs) lo hi
      in if length v = m then Inr (take a xs @ v @ drop (a + m) xs)
         else if length v = 1 then Inr (take a xs @ replicate m (hd v) @ drop (a + m) xs)
         else Inl ValueError)"

text \<open>
  The arrays that \<^verbatim>\<open>set_bc\<close> receives are references, and two of them are the same
  object when the ring has one or two patches. The arrays live in a store \<open>heap\<close>, and
  \<^verbatim>\<open>set_bc\<close> gets their positions: \<^verbatim>\<open>dst[dlo:dhi] = src[slo:shi]\<close> reads the store as
  it is at that moment.
\<close>

definition copy_rows ::
  "arr list \<Rightarrow> nat \<Rightarrow> int option \<Rightarrow> int option \<Rightarrow> nat \<Rightarrow> int option \<Rightarrow> int option
     \<Rightarrow> error + arr list" where
  "copy_rows heap dst dlo dhi src slo shi =
     (case assign_slice (heap ! dst) dlo dhi (py_slice (heap ! src) slo shi) of
        Inl e \<Rightarrow> Inl e
      | Inr a \<Rightarrow> Inr (heap[dst := a]))"

record srhd_solver =
  boundary_condition :: string
  num_guard :: nat
  num_cons :: nat
  solver_num_zones :: nat
  patches :: "patch list"

definition set_bc :: "srhd_solver \<Rightarrow> arr list \<Rightarrow> nat \<Rightarrow> nat \<Rightarrow> nat \<Rightarrow> nat \<Rightarrow> error + arr list" where
  "set_bc self heap al a0 ar index =
     (let ng = int (num_guard self);
          bc = boundary_condition self
      in if bc = ''periodic'' then
           (case copy_rows heap a0 None (Some ng) al (Some (- 2 * ng)) (Some (- ng)) of
              Inl e \<Rightarrow> Inl e
            | Inr h1 \<Rightarrow> copy_rows h1 a0 (Some (- ng)) None ar (Some ng) (Some (2 * ng)))
         else if bc = ''outflow'' then
           (case (if index = 0
                  then copy_rows heap a0 None (Some ng) a0 (Some ng) (Some (2 * ng))
                  else copy_rows heap a0 None (Some ng) al (Some (- 2 * ng)) (Some (- ng))) of
              Inl e \<Rightarrow> Inl e
            | Inr h1 \<Rightarrow>
                if int index = int (length (patches self)) - 1
                then copy_rows h1 a0 (Some (- ng)) None a0 (Some (- 2 * ng)) (Some (- ng))
                else copy_rows h1 a0 (Some (- ng)) None ar (Some ng) (Some (2 * ng)))
         else Inl ValueError)"

text \<open>
  The first loop of \<^verbatim>\<open>Solver.advance_rk\<close>: patch \<open>i\<close> exchanges with the patches
  \<^verbatim>\<open>(i + num_patches - 1) % num_patches\<close> and \<^verbatim>\<open>(i + num_patches + 1) % num_patches\<close>,
  first the arrays \<^verbatim>\<open>primitive1\<close>, then the arrays \<^verbatim>\<open>conserved1\<close>. The second loop
  advances every patch.
\<close>

definition left_patch :: "nat \<Rightarrow> nat \<Rightarrow> nat" where
  "left_patch num_patches i = (i + num_patches - 1) mod num_patches"

definition right_patch :: "nat \<Rightarrow> nat \<Rightarrow> nat" where
  "right_patch num_patches i = (i + num_patches + 1) mod num_patches"

definition exchange_step :: "srhd_solver \<Rightarrow> nat \<Rightarrow> error + srhd_solver" where
  "exchange_step self i =
     (let num_patches = length (patches self);
          pl = left_patch num_patches i;
          p0 = i;
          pr = right_patch num_patches i
      in case set_bc self (map primitive1 (patches self)) pl p0 pr i of
           Inl e \<Rightarrow> Inl e
         | Inr prims \<Rightarrow>
             (case set_bc self (map conserved1 (patches self)) pl p0 pr i of
                Inl e \<Rightarrow> Inl e
              | Inr conss \<Rightarrow>
                  Inr (self\<lparr>patches :=
                         map (\<lambda>(p, a, c). p\<lparr>primitive1 := a, conserved1 := c\<rparr>)
                           (zip (patches self) (zip prims conss))\<rparr>)))"

fun exchange_loop :: "srhd_solver \<Rightarrow> nat list \<Rightarrow> error + srhd_solver" where
  "exchange_loop self [] = Inr self"
| "exchange_loop self (i # is) =
     (case exchange_step self i of
        Inl e \<Rightarrow> Inl e
      | Inr self1 \<Rightarrow> exchange_loop self1 is)"

definition Solver_advance_rk ::
  "srhd_lib \<Rightarrow> srhd_solver \<Rightarrow> real \<Rightarrow> real \<Rightarrow> error + srhd_solver" where
  "Solver_advance_rk lib self rk_param dt =
     (let num_patches = length (patches self)
      in case exchange_loop self [0..<num_patches] of
           Inl e \<Rightarrow> Inl e
         | Inr self1 \<Rightarrow>
             Inr (self1\<lparr>patches :=
                    map (\<lambda>patch. Patch_advance_rk lib patch rk_param dt) (patches self1)\<rparr>))"

text \<open>
  The parts of an array of rows with \<open>ng\<close> guard rows at each end: the first and the last
  \<open>ng\<close> interior rows, \<^verbatim>\<open>a[ng:2*ng]\<close> and \<^verbatim>\<open>a[-2*ng:-ng]\<close>, and all interior rows.
\<close>

definition left_edge :: "nat \<Rightarrow> arr \<Rightarrow> arr" where
  "left_edge ng a = take ng (drop ng a)"

definition right_edge :: "nat \<Rightarrow> arr \<Rightarrow> arr" where
  "right_edge ng a = take ng (drop (length a - 2 * ng) a)"

definition interior_rows :: "nat \<Rightarrow> arr \<Rightarrow> arr" where
  "interior_rows ng a = take (length a - 2 * ng) (drop ng a)"

section \<open>Properties of the limiter\<close>

lemma minabs_zero:
  "a = 0 \<or> b = 0 \<or> c = 0 \<Longrightarrow> minabs a b c = 0"
  by (auto simp: minabs_def min3_def min2_def)

lemma minabs_neg: "minabs (- a) (- b) (- c) = minabs a b c"
  by (simp add: minabs_def)

lemma sign_neg: "x \<noteq> 0 \<Longrightarrow> sign (- x) = - sign x"
  by (simp add: sign_def)

text \<open>
  C7. Three equal samples give a zero slope, whatever the limiter parameter is.
\<close>

theorem plm_minmod_equal_samples: "plm_minmod y y y theta = 0"
  by (simp add: plm_minmod_def minabs_zero)

theorem plm_minmod_equal_samples_witness: "plm_minmod 3 3 3 1.5 = 0"
  using plm_minmod_equal_samples [of 3 "1.5"] by simp

text \<open>
  C8. Negating the three samples negates the limited slope.
\<close>

theorem plm_minmod_antisymmetric:
  "plm_minmod (- yl) (- yc) (- yr) theta = - plm_minmod yl yc yr theta"
proof -
  define a where "a = (yc - yl) * theta"
  define b where "b = (yr - yl) * 0.5"
  define c where "c = (yr - yc) * theta"
  have na: "(- yc - - yl) * theta = - a"
    and nc: "(- yr - - yc) * theta = - c"
    by (simp_all add: a_def c_def algebra_simps)
  have nb: "(- yr - - yl) * 0.5 = - b"
    by (simp add: b_def field_simps)
  have lhs: "plm_minmod (- yl) (- yc) (- yr) theta =
      0.25 * \<bar>sign (- a) + sign (- b)\<bar> * (sign (- a) + sign (- c)) * minabs a b c"
    unfolding plm_minmod_def Let_def na nb nc by (simp only: minabs_neg)
  have rhs: "plm_minmod yl yc yr theta =
      0.25 * \<bar>sign a + sign b\<bar> * (sign a + sign c) * minabs a b c"
    unfolding plm_minmod_def Let_def a_def b_def c_def by simp
  show ?thesis
  proof (cases "a = 0 \<or> b = 0 \<or> c = 0")
    case True
    then have "minabs a b c = 0" by (rule minabs_zero)
    then show ?thesis by (simp add: lhs rhs)
  next
    case False
    then have "sign (- a) = - sign a" "sign (- b) = - sign b" "sign (- c) = - sign c"
      by (simp_all add: sign_neg)
    then have s1: "\<bar>sign (- a) + sign (- b)\<bar> = \<bar>sign a + sign b\<bar>"
      and s2: "sign (- a) + sign (- c) = - (sign a + sign c)"
      by simp_all
    show ?thesis unfolding lhs rhs s1 s2 by (simp add: algebra_simps)
  qed
qed

theorem plm_minmod_antisymmetric_witness:
  "plm_minmod (- 1) (- 2) (- 4) 2 = - plm_minmod 1 2 4 2"
  using plm_minmod_antisymmetric [of 1 2 4 2] by simp

section \<open>Properties of the grid\<close>

lemma length_linspace: "length (linspace a b n) = n"
  by (simp add: linspace_def)

lemma length_cell_centers_1d: "length (cell_centers_1d ni) = ni - 1"
  by (simp add: cell_centers_1d_def Let_def length_linspace)

lemma linspace_nth:
  "1 < n \<Longrightarrow> k < n \<Longrightarrow> linspace 0 1 n ! k = real k / real (n - 1)"
  by (simp add: linspace_def)

lemma cell_centers_1d_nth:
  assumes "i + 1 < ni"
  shows "cell_centers_1d ni ! i = (real i + 1 / 2) / real (ni - 1)"
proof -
  let ?xv = "linspace 0 1 ni"
  have len: "length ?xv = ni" by (rule length_linspace)
  have n: "1 < ni" using assms by simp
  have a: "drop 1 ?xv ! i = real (i + 1) / real (ni - 1)"
    using assms len n by (simp add: linspace_nth)
  have b: "butlast ?xv ! i = real i / real (ni - 1)"
    using assms len n by (simp add: nth_butlast linspace_nth)
  have "cell_centers_1d ni ! i = 0.5 * (drop 1 ?xv ! i + butlast ?xv ! i)"
    using assms len by (simp add: cell_centers_1d_def Let_def)
  also have "\<dots> = 0.5 * (real (i + 1) / real (ni - 1) + real i / real (ni - 1))"
    unfolding a b ..
  also have "\<dots> = (real i + 1 / 2) / real (ni - 1)"
  proof -
    define d where "d = real (ni - 1)"
    have "d \<noteq> 0" using n by (simp add: d_def)
    then have "0.5 * (real (i + 1) / d + real i / d) = (real i + 1 / 2) / d"
      by (simp add: field_simps)
    then show ?thesis by (simp only: d_def)
  qed
  finally show ?thesis .
qed

text \<open>
  C3. The function builds \<open>ni\<close> vertices, not \<open>ni + 1\<close>, so it returns \<open>ni - 1\<close> centers:
  for two zones it returns the single point \<open>1/2\<close>, where the uniform grid of two zones
  over \<open>[0, 1]\<close> has the centers \<open>1/4\<close> and \<open>3/4\<close>.
\<close>

theorem cell_centers_1d_two_zones:
  "cell_centers_1d 2 = [1 / 2] \<and> cell_centers_1d 2 \<noteq> map (\<lambda>i. (real i + 1 / 2) / 2) [0..<2]"
proof -
  have u: "[0..<2] = [0, Suc 0]" by (simp add: upt_rec)
  then have "linspace 0 1 2 = [0, 1]" by (simp add: linspace_def)
  then have c: "cell_centers_1d 2 = [1 / 2]" by (simp add: cell_centers_1d_def)
  show ?thesis unfolding c u by simp
qed

section \<open>Loops as maps\<close>

text \<open>
  A loop whose body writes the slot of its own index, from values that no earlier
  iteration has written, is a map over the indices.
\<close>

lemma length_fold_update:
  "length (fold (\<lambda>i acc. acc[k i := h i acc]) is xs) = length xs"
  by (induction "is" arbitrary: xs) simp_all

lemma fold_own_slot_nth:
  "j < length xs \<Longrightarrow>
   fold (\<lambda>i acc. acc[i := h i (acc ! i)]) [a..<b] xs ! j =
     (if a \<le> j \<and> j < b then h j (xs ! j) else xs ! j)"
proof (induction b)
  case 0
  then show ?case by simp
next
  case (Suc b)
  show ?case
  proof (cases "a \<le> b")
    case True
    let ?acc = "fold (\<lambda>i acc. acc[i := h i (acc ! i)]) [a..<b] xs"
    have len: "length ?acc = length xs" by (rule length_fold_update)
    have step: "fold (\<lambda>i acc. acc[i := h i (acc ! i)]) [a..<Suc b] xs = ?acc[b := h b (?acc ! b)]"
      using True by simp
    show ?thesis
    proof (cases "j = b")
      case True
      then have "?acc ! b = xs ! b" using Suc by simp
      then show ?thesis using True \<open>a \<le> b\<close> Suc.prems len by (simp add: step)
    next
      case False
      then show ?thesis using Suc \<open>a \<le> b\<close> by (auto simp: step)
    qed
  next
    case False
    then show ?thesis by auto
  qed
qed

lemma FOR_RANGE_1D_own_slot:
  "FOR_RANGE_1D a b (\<lambda>i acc. acc[i := h i (acc ! i)]) xs =
     map (\<lambda>j. if a \<le> j \<and> j < b then h j (xs ! j) else xs ! j) [0..<length xs]"
  unfolding FOR_RANGE_1D_def
  by (rule nth_equalityI) (simp_all add: length_fold_update fold_own_slot_nth)

lemma FOR_RANGE_1D_write:
  "FOR_RANGE_1D a b (\<lambda>i acc. acc[i := g i]) xs =
     map (\<lambda>j. if a \<le> j \<and> j < b then g j else xs ! j) [0..<length xs]"
  using FOR_RANGE_1D_own_slot [where h = "\<lambda>i _. g i"] by simp

lemma FOR_RANGE_1D_write_next:
  "FOR_RANGE_1D a b (\<lambda>i acc. acc[i + 1 := g i]) xs =
     map (\<lambda>j. if a + 1 \<le> j \<and> j < b + 1 then g (j - 1) else xs ! j) [0..<length xs]"
proof -
  have "fold (\<lambda>i acc. acc[i + 1 := g i]) [a..<b] xs =
        fold (\<lambda>k acc. acc[k := g (k - 1)]) (map Suc [a..<b]) xs"
    by (simp add: fold_map comp_def)
  also have "map Suc [a..<b] = [a + 1..<b + 1]"
    by (simp add: map_Suc_upt)
  finally show ?thesis
    using FOR_RANGE_1D_write [of "a + 1" "b + 1" "\<lambda>k. g (k - 1)" xs]
    by (simp add: FOR_RANGE_1D_def)
qed

section \<open>Kernels in closed form\<close>

lemma interior_range: "(2 \<le> j \<and> j < n - 2) = interior n j"
  by (auto simp: interior_def)

lemma prim_to_cons_array_closed:
  "prim_to_cons_array lib p u =
     map (\<lambda>j. if 1 \<le> j \<and> j < length p - 1 then prim_to_cons lib (p ! j) else u ! j)
       [0..<length u]"
  by (simp add: prim_to_cons_array_def FOR_RANGE_1D_write)

lemma prim_to_cons_array_interior:
  "length u = length p \<Longrightarrow> interior (length p) i \<Longrightarrow>
   prim_to_cons_array lib p u ! i = prim_to_cons lib (p ! i)"
  by (auto simp: prim_to_cons_array_closed interior_def)

lemma length_prim_to_cons_array: "length (prim_to_cons_array lib p u) = length u"
  by (simp add: prim_to_cons_array_closed)

lemma FluxPerZoneSolver_update_prim_closed:
  "blend_of s urk rk = Inr blend \<Longrightarrow>
   FluxPerZoneSolver_update_prim lib s prd pwr urk dt dx rk plm_theta =
     Inr (map (\<lambda>j. if interior (length prd) j
                   then zone_update lib s prd dt dx plm_theta (blend j) j
                   else pwr ! j) [0..<length pwr])"
  by (simp add: FluxPerZoneSolver_update_prim_def FOR_RANGE_1D_write interior_range)

lemma compute_godunov_fluxes_closed:
  "FluxPerFaceSolver_compute_godunov_fluxes lib s p f plm_theta =
     map (\<lambda>j. if 2 \<le> j \<and> j + 1 < length p then face_flux lib s p plm_theta (j - 1) else f ! j)
       [0..<length f]"
proof -
  have "FluxPerFaceSolver_compute_godunov_fluxes lib s p f plm_theta =
        FOR_RANGE_1D 1 (length p - 2) (\<lambda>i acc. acc[i + 1 := face_flux lib s p plm_theta i]) f"
    by (simp add: FluxPerFaceSolver_compute_godunov_fluxes_def)
  also have "\<dots> = map (\<lambda>j. if 1 + 1 \<le> j \<and> j < length p - 2 + 1
                           then face_flux lib s p plm_theta (j - 1) else f ! j) [0..<length f]"
    by (rule FOR_RANGE_1D_write_next)
  also have "\<dots> = map (\<lambda>j. if 2 \<le> j \<and> j + 1 < length p
                           then face_flux lib s p plm_theta (j - 1) else f ! j) [0..<length f]"
    by (rule map_cong) auto
  finally show ?thesis .
qed

lemma FluxPerFaceSolver_update_prim_closed:
  "blend_of s urk rk = Inr blend \<Longrightarrow>
   FluxPerFaceSolver_update_prim lib s p f urk dt dx rk =
     Inr (map (\<lambda>j. if interior (length p) j
                   then face_update lib f dt dx (blend j) j (p ! j)
                   else p ! j) [0..<length p])"
  unfolding FluxPerFaceSolver_update_prim_def Let_def
  by (simp add: interior_range
      FOR_RANGE_1D_own_slot [of 2 "length p - 2" "\<lambda>i. face_update lib f dt dx (blend i) i" p])

section \<open>Stages of the drivers\<close>

lemma length_zone_stage: "length (zone_stage lib s blend dt dx th P) = length P"
  by (simp add: zone_stage_def)

lemma zone_stage_guard:
  "i < length P \<Longrightarrow> \<not> interior (length P) i \<Longrightarrow> zone_stage lib s blend dt dx th P ! i = P ! i"
  by (simp add: zone_stage_def)

lemma length_face_stage: "length (face_stage lib s blend dt dx th P) = length P"
  by (simp add: face_stage_def)

lemma face_stage_guard:
  "i < length P \<Longrightarrow> \<not> interior (length P) i \<Longrightarrow> face_stage lib s blend dt dx th P ! i = P ! i"
  by (simp add: face_stage_def)

lemma update_prim_is_zone_stage:
  assumes b: "blend_of s urk rk = Inr b"
    and len: "length pwr = length prd"
    and guard: "\<And>i. i < length prd \<Longrightarrow> \<not> interior (length prd) i \<Longrightarrow> pwr ! i = prd ! i"
    and blend: "\<And>i. interior (length prd) i \<Longrightarrow> b i = blend i"
  shows "FluxPerZoneSolver_update_prim lib s prd pwr urk dt dx rk th =
           Inr (zone_stage lib s blend dt dx th prd)"
proof -
  have "map (\<lambda>j. if interior (length prd) j then zone_update lib s prd dt dx th (b j) j
                 else pwr ! j) [0..<length pwr] = zone_stage lib s blend dt dx th prd"
    unfolding zone_stage_def len
    by (rule map_cong) (auto simp: guard blend)
  then show ?thesis
    by (simp add: FluxPerZoneSolver_update_prim_closed [OF b])
qed

lemma face_update_after_fluxes:
  assumes len: "length f = length p" and int: "interior (length p) i"
  shows "face_update lib (FluxPerFaceSolver_compute_godunov_fluxes lib s p f th) dt dx bl i pc =
           cons_to_prim lib
             (update_cons 3 (prim_to_cons lib pc)
                (\<lambda>q. face_flux lib s p th i ! q - face_flux lib s p th (i - 1) ! q) dt dx bl)"
proof -
  let ?F = "FluxPerFaceSolver_compute_godunov_fluxes lib s p f th"
  have i: "2 \<le> i" "i + 2 < length p" using int by (simp_all add: interior_def)
  have "?F ! i = face_flux lib s p th (i - 1)"
    using i len by (simp add: compute_godunov_fluxes_closed)
  moreover have "?F ! (i + 1) = face_flux lib s p th i"
    using i len by (simp add: compute_godunov_fluxes_closed)
  ultimately show ?thesis
    by (simp add: face_update_def)
qed

lemma update_prim_is_face_stage:
  assumes b: "blend_of s urk rk = Inr b"
    and len: "length f = length p"
    and blend: "\<And>i. interior (length p) i \<Longrightarrow> b i = blend i"
  shows "FluxPerFaceSolver_update_prim lib s p
           (FluxPerFaceSolver_compute_godunov_fluxes lib s p f th) urk dt dx rk =
           Inr (face_stage lib s blend dt dx th p)"
proof -
  let ?F = "FluxPerFaceSolver_compute_godunov_fluxes lib s p f th"
  have "map (\<lambda>j. if interior (length p) j then face_update lib ?F dt dx (b j) j (p ! j)
                 else p ! j) [0..<length p] = face_stage lib s blend dt dx th p"
    unfolding face_stage_def
    by (rule map_cong) (auto simp: face_update_after_fluxes [OF len] blend)
  then show ?thesis
    by (simp add: FluxPerFaceSolver_update_prim_closed [OF b])
qed

lemma length_compute_godunov_fluxes:
  "length (FluxPerFaceSolver_compute_godunov_fluxes lib s p f th) = length f"
  by (simp add: compute_godunov_fluxes_closed)

lemma blend_of_rk: "runge_kutta s \<Longrightarrow> blend_of s (Some u) rk = Inr (\<lambda>i. Some (rk, u ! i))"
  by (simp add: blend_of_def)

lemma blend_of_fwd: "\<not> runge_kutta s \<Longrightarrow> blend_of s urk rk = Inr (\<lambda>i. None)"
  by (simp add: blend_of_def)

lemma per_zone_stages_outcome:
  assumes rk: "runge_kutta s"
    and urk: "\<And>i. interior (length p0) i \<Longrightarrow> urk ! i = prim_to_cons lib (p0 ! i)"
  shows "length prd = length p0 \<Longrightarrow> length pwr = length p0 \<Longrightarrow>
         (\<And>i. i < length p0 \<Longrightarrow> \<not> interior (length p0) i \<Longrightarrow> pwr ! i = prd ! i) \<Longrightarrow>
         outcome (per_zone_stages lib s urk dt dx th rs (prd, pwr, flag, n)) =
           Inr (foldl (\<lambda>P \<alpha>. zone_stage lib s (frozen_blend lib p0 \<alpha>) dt dx th P) prd rs)"
proof (induction rs arbitrary: prd pwr flag n)
  case Nil
  then show ?case by simp
next
  case (Cons a rs)
  have st: "FluxPerZoneSolver_update_prim lib s prd pwr (Some urk) dt dx a th =
        Inr (zone_stage lib s (frozen_blend lib p0 a) dt dx th prd)"
    by (rule update_prim_is_zone_stage [OF blend_of_rk [OF rk]])
       (simp_all add: Cons.prems frozen_blend_def urk)
  have "outcome (per_zone_stages lib s urk dt dx th rs
          (zone_stage lib s (frozen_blend lib p0 a) dt dx th prd, prd, \<not> flag, n + 1)) =
        Inr (foldl (\<lambda>P \<alpha>. zone_stage lib s (frozen_blend lib p0 \<alpha>) dt dx th P)
          (zone_stage lib s (frozen_blend lib p0 a) dt dx th prd) rs)"
    by (rule Cons.IH) (simp_all add: length_zone_stage zone_stage_guard Cons.prems)
  then show ?case by (simp add: st)
qed

lemma per_face_stages_outcome:
  assumes rk: "runge_kutta s"
    and urk: "\<And>i. interior (length p0) i \<Longrightarrow> urk ! i = prim_to_cons lib (p0 ! i)"
  shows "length p = length p0 \<Longrightarrow> length f = length p0 \<Longrightarrow>
         per_face_stages lib s urk dt dx th rs (p, f, n) =
           (let r = foldl (\<lambda>P \<alpha>. face_stage lib s (frozen_blend lib p0 \<alpha>) dt dx th P) p rs
            in \<lparr>caller_p = r, launches = n + 2 * length rs, outcome = Inr r\<rparr>)"
proof (induction rs arbitrary: p f n)
  case Nil
  then show ?case by simp
next
  case (Cons a rs)
  let ?f1 = "FluxPerFaceSolver_compute_godunov_fluxes lib s p f th"
  have st: "FluxPerFaceSolver_update_prim lib s p ?f1 (Some urk) dt dx a =
        Inr (face_stage lib s (frozen_blend lib p0 a) dt dx th p)"
    by (rule update_prim_is_face_stage [OF blend_of_rk [OF rk]])
       (simp_all add: Cons.prems frozen_blend_def urk)
  have "per_face_stages lib s urk dt dx th rs
          (face_stage lib s (frozen_blend lib p0 a) dt dx th p, ?f1, n + 2) =
        (let r = foldl (\<lambda>P \<alpha>. face_stage lib s (frozen_blend lib p0 \<alpha>) dt dx th P)
                   (face_stage lib s (frozen_blend lib p0 a) dt dx th p) rs
         in \<lparr>caller_p = r, launches = n + 2 + 2 * length rs, outcome = Inr r\<rparr>)"
    by (rule Cons.IH) (simp_all add: length_face_stage length_compute_godunov_fluxes Cons.prems)
  then show ?case by (simp add: st Let_def)
qed

lemma foldl_zone_stage_guard:
  "length (foldl (\<lambda>P \<alpha>. zone_stage lib s (bl \<alpha>) dt dx th P) P rs) = length P \<and>
   (\<forall>i < length P. \<not> interior (length P) i \<longrightarrow>
      foldl (\<lambda>P \<alpha>. zone_stage lib s (bl \<alpha>) dt dx th P) P rs ! i = P ! i)"
proof (induction rs arbitrary: P)
  case Nil
  then show ?case by simp
next
  case (Cons a rs)
  show ?case
    using Cons.IH [of "zone_stage lib s (bl a) dt dx th P"]
    by (simp add: length_zone_stage zone_stage_guard)
qed

section \<open>The one-dimensional driver in closed form\<close>

lemma SolverClass_get_fwd:
  "reconstruction \<in> {''pcm'', ''plm''} \<Longrightarrow>
   SolverClass_get FPZSolvers ''fwd'' reconstruction =
     Inr (Some \<lparr>runge_kutta = False, plm = (reconstruction = ''plm'')\<rparr>) \<and>
   SolverClass_get FPFSolvers ''fwd'' reconstruction =
     Inr (Some \<lparr>runge_kutta = False, plm = (reconstruction = ''plm'')\<rparr>)"
  by (auto simp: SolverClass_get_def FPZSolvers_def FPFSolvers_def)

lemma SolverClass_get_rkn:
  "reconstruction \<in> {''pcm'', ''plm''} \<Longrightarrow> time_integration \<in> {''rk1'', ''rk2'', ''rk3''} \<Longrightarrow>
   SolverClass_get FPZSolvers time_integration reconstruction =
     Inr (Some \<lparr>runge_kutta = True, plm = (reconstruction = ''plm'')\<rparr>) \<and>
   SolverClass_get FPFSolvers time_integration reconstruction =
     Inr (Some \<lparr>runge_kutta = True, plm = (reconstruction = ''plm'')\<rparr>)"
  by (auto simp: SolverClass_get_def FPZSolvers_def FPFSolvers_def)

lemma SolverClass_get_unknown:
  "reconstruction \<notin> {''pcm'', ''plm''} \<Longrightarrow>
   SolverClass_get cls time_integration reconstruction = Inl ValueError"
  by (simp add: SolverClass_get_def)

lemma empty_like_ok:
  "exec_mode \<in> {''cpu'', ''gpu''} \<Longrightarrow>
   \<exists>xp. numpy_or_cupy exec_mode = Some xp \<and>
        empty_like (numpy_or_cupy exec_mode) m p = Inr (map m [0..<length p])"
  by (auto simp: numpy_or_cupy_def empty_like_def)

lemma rk_stages_rkn:
  "time_integration \<in> {''rk1'', ''rk2'', ''rk3''} \<Longrightarrow>
   \<exists>rs. rk_stages time_integration = Inr (Some rs)"
  by (auto simp: rk_stages_def)

lemma update_prim_per_zone_fwd:
  assumes "reconstruction \<in> {''pcm'', ''plm''}"
  shows "update_prim lib mem p dt dx ''per_zone'' reconstruction th ''fwd'' exec_mode =
     \<lparr>caller_p = p, launches = 1,
      outcome = Inr (zone_stage lib \<lparr>runge_kutta = False, plm = (reconstruction = ''plm'')\<rparr>
                       no_blend dt dx th p)\<rparr>"
proof -
  let ?s = "\<lparr>runge_kutta = False, plm = (reconstruction = ''plm'')\<rparr>"
  have k: "FluxPerZoneSolver_update_prim lib ?s p p None dt dx 0 th =
        Inr (zone_stage lib ?s no_blend dt dx th p)"
    by (rule update_prim_is_zone_stage [OF blend_of_fwd]) (simp_all add: no_blend_def)
  show ?thesis
    using SolverClass_get_fwd [OF assms]
    by (simp add: update_prim_def update_prim_per_zone_def rk_stages_def k)
qed

lemma update_prim_per_zone_rkn:
  assumes rec: "reconstruction \<in> {''pcm'', ''plm''}"
    and ti: "time_integration \<in> {''rk1'', ''rk2'', ''rk3''}"
    and em: "exec_mode \<in> {''cpu'', ''gpu''}"
    and rs: "rk_stages time_integration = Inr (Some rs)"
  shows "outcome (update_prim lib mem p dt dx ''per_zone'' reconstruction th time_integration
            exec_mode) =
     Inr (foldl (\<lambda>P \<alpha>. zone_stage lib \<lparr>runge_kutta = True, plm = (reconstruction = ''plm'')\<rparr>
                   (frozen_blend lib p \<alpha>) dt dx th P) p rs)"
proof -
  let ?s = "\<lparr>runge_kutta = True, plm = (reconstruction = ''plm'')\<rparr>"
  let ?u0 = "map (mem 0) [0..<length p]"
  let ?urk = "prim_to_cons_array lib p ?u0"
  have nf: "time_integration \<noteq> ''fwd''" using ti by auto
  have st: "outcome (per_zone_stages lib ?s ?urk dt dx th rs (p, p, True, Suc 0)) =
        Inr (foldl (\<lambda>P \<alpha>. zone_stage lib ?s (frozen_blend lib p \<alpha>) dt dx th P) p rs)"
    by (rule per_zone_stages_outcome) (simp_all add: prim_to_cons_array_interior)
  show ?thesis
    using SolverClass_get_rkn [OF rec ti] empty_like_ok [OF em, of "mem 0" p]
    by (auto simp: update_prim_def update_prim_per_zone_def rs nf st)
qed

lemma update_prim_per_face_fwd:
  assumes rec: "reconstruction \<in> {''pcm'', ''plm''}"
    and em: "exec_mode \<in> {''cpu'', ''gpu''}"
  shows "update_prim lib mem p dt dx ''per_face'' reconstruction th ''fwd'' exec_mode =
     (let r = face_stage lib \<lparr>runge_kutta = False, plm = (reconstruction = ''plm'')\<rparr>
                no_blend dt dx th p
      in \<lparr>caller_p = r, launches = 2, outcome = Inr r\<rparr>)"
proof -
  let ?s = "\<lparr>runge_kutta = False, plm = (reconstruction = ''plm'')\<rparr>"
  let ?f = "map (mem 0) [0..<length p]"
  have k: "FluxPerFaceSolver_update_prim lib ?s p
             (FluxPerFaceSolver_compute_godunov_fluxes lib ?s p ?f th) None dt dx 0 =
        Inr (face_stage lib ?s no_blend dt dx th p)"
    by (rule update_prim_is_face_stage [OF blend_of_fwd]) (simp_all add: no_blend_def)
  show ?thesis
    using SolverClass_get_fwd [OF rec] empty_like_ok [OF em, of "mem 0" p]
    by (auto simp: update_prim_def update_prim_per_face_def rk_stages_def k Let_def)
qed

lemma update_prim_per_face_rkn:
  assumes rec: "reconstruction \<in> {''pcm'', ''plm''}"
    and ti: "time_integration \<in> {''rk1'', ''rk2'', ''rk3''}"
    and em: "exec_mode \<in> {''cpu'', ''gpu''}"
    and rs: "rk_stages time_integration = Inr (Some rs)"
  shows "update_prim lib mem p dt dx ''per_face'' reconstruction th time_integration exec_mode =
     (let r = foldl (\<lambda>P \<alpha>. face_stage lib \<lparr>runge_kutta = True, plm = (reconstruction = ''plm'')\<rparr>
                   (frozen_blend lib p \<alpha>) dt dx th P) p rs
      in \<lparr>caller_p = r, launches = 1 + 2 * length rs, outcome = Inr r\<rparr>)"
proof -
  let ?s = "\<lparr>runge_kutta = True, plm = (reconstruction = ''plm'')\<rparr>"
  let ?f = "map (mem 0) [0..<length p]"
  let ?u0 = "map (mem (Suc 0)) [0..<length p]"
  let ?urk = "prim_to_cons_array lib p ?u0"
  have nf: "time_integration \<noteq> ''fwd''" using ti by auto
  have st: "per_face_stages lib ?s ?urk dt dx th rs (p, ?f, Suc 0) =
        (let r = foldl (\<lambda>P \<alpha>. face_stage lib ?s (frozen_blend lib p \<alpha>) dt dx th P) p rs
         in \<lparr>caller_p = r, launches = Suc 0 + 2 * length rs, outcome = Inr r\<rparr>)"
    by (rule per_face_stages_outcome) (simp_all add: prim_to_cons_array_interior)
  show ?thesis
    using SolverClass_get_rkn [OF rec ti] empty_like_ok [OF em, of "mem 0" p]
      empty_like_ok [OF em, of "mem 1" p]
    by (auto simp: update_prim_def update_prim_per_face_def rs nf st Let_def)
qed

section \<open>Guard zones on the per-zone path\<close>

text \<open>
  C10. On the per-zone path, with any of the four time integrations and either
  reconstruction, the driver returns an array of the length of its input that agrees
  with the input at every guard zone: at every index below 2 and at every index from
  \<open>ni - 2\<close> on.
\<close>

theorem update_prim_per_zone_keeps_guards:
  assumes ti: "time_integration \<in> {''fwd'', ''rk1'', ''rk2'', ''rk3''}"
    and rec: "reconstruction \<in> {''pcm'', ''plm''}"
    and em: "exec_mode \<in> {''cpu'', ''gpu''}"
  shows "\<exists>r. outcome (update_prim lib mem p dt dx ''per_zone'' reconstruction plm_theta
                  time_integration exec_mode) = Inr r \<and>
             length r = length p \<and>
             (\<forall>i < length p. i < 2 \<or> length p \<le> i + 2 \<longrightarrow> r ! i = p ! i)"
proof (cases "time_integration = ''fwd''")
  case True
  let ?r = "zone_stage lib \<lparr>runge_kutta = False, plm = (reconstruction = ''plm'')\<rparr>
              no_blend dt dx plm_theta p"
  have "outcome (update_prim lib mem p dt dx ''per_zone'' reconstruction plm_theta
          time_integration exec_mode) = Inr ?r"
    by (simp add: True update_prim_per_zone_fwd [OF rec])
  moreover have "length ?r = length p" by (rule length_zone_stage)
  moreover have "\<forall>i < length p. i < 2 \<or> length p \<le> i + 2 \<longrightarrow> ?r ! i = p ! i"
    by (auto simp: zone_stage_guard interior_def)
  ultimately show ?thesis by blast
next
  case False
  then have ti': "time_integration \<in> {''rk1'', ''rk2'', ''rk3''}" using ti by auto
  obtain rs where rs: "rk_stages time_integration = Inr (Some rs)"
    using rk_stages_rkn [OF ti'] by blast
  let ?s = "\<lparr>runge_kutta = True, plm = (reconstruction = ''plm'')\<rparr>"
  let ?r = "foldl (\<lambda>P \<alpha>. zone_stage lib ?s (frozen_blend lib p \<alpha>) dt dx plm_theta P) p rs"
  have "outcome (update_prim lib mem p dt dx ''per_zone'' reconstruction plm_theta
          time_integration exec_mode) = Inr ?r"
    by (rule update_prim_per_zone_rkn [OF rec ti' em rs])
  moreover have "length ?r = length p"
    using foldl_zone_stage_guard [of lib ?s "frozen_blend lib p" dt dx plm_theta p rs] by simp
  moreover have "\<forall>i < length p. i < 2 \<or> length p \<le> i + 2 \<longrightarrow> ?r ! i = p ! i"
    using foldl_zone_stage_guard [of lib ?s "frozen_blend lib p" dt dx plm_theta p rs]
    by (auto simp: interior_def)
  ultimately show ?thesis by blast
qed

theorem update_prim_per_zone_keeps_guards_witness:
  "''rk3'' \<in> {''fwd'', ''rk1'', ''rk2'', ''rk3''} \<and> ''plm'' \<in> {''pcm'', ''plm''} \<and>
   ''cpu'' \<in> {''cpu'', ''gpu''} \<and>
   (\<exists>r. outcome (update_prim
            \<lparr>prim_to_cons = (\<lambda>c. c), cons_to_prim = (\<lambda>c. c), riemann_hlle = (\<lambda>l r k. l)\<rparr>
            (\<lambda>k i. [0, 0, 0]) (replicate 6 [1, 0, 1]) 0.01 0.1 ''per_zone'' ''plm'' 1.5
            ''rk3'' ''cpu'') = Inr r \<and>
        length r = 6 \<and> r ! 0 = [1, 0, 1] \<and> r ! 1 = [1, 0, 1] \<and>
        r ! 4 = [1, 0, 1] \<and> r ! 5 = [1, 0, 1])"
proof -
  let ?lib = "\<lparr>prim_to_cons = (\<lambda>c. c), cons_to_prim = (\<lambda>c. c), riemann_hlle = (\<lambda>l r k. l)\<rparr>"
  let ?p = "replicate 6 [1, 0, 1::real]"
  have h: "''rk3'' \<in> {''fwd'', ''rk1'', ''rk2'', ''rk3''}" "''plm'' \<in> {''pcm'', ''plm''}"
    "''cpu'' \<in> {''cpu'', ''gpu''}"
    by simp_all
  obtain r where r: "outcome (update_prim ?lib (\<lambda>k i. [0, 0, 0]) ?p 0.01 0.1 ''per_zone''
        ''plm'' 1.5 ''rk3'' ''cpu'') = Inr r"
    "length r = length ?p"
    "\<forall>i < length ?p. i < 2 \<or> length ?p \<le> i + 2 \<longrightarrow> r ! i = ?p ! i"
    using update_prim_per_zone_keeps_guards [OF h, of ?lib "\<lambda>k i. [0, 0, 0]" ?p "0.01" "0.1" "1.5"]
    by blast
  have "r ! 0 = [1, 0, 1]" "r ! 1 = [1, 0, 1]" "r ! 4 = [1, 0, 1]" "r ! 5 = [1, 0, 1]"
    using r(3) by simp_all
  then show ?thesis using r(1,2) h by auto
qed

section \<open>Forward Euler and one Runge-Kutta stage\<close>

lemma update_cons_rk0:
  "update_cons n uc dF dt dx (Some (0, c)) = update_cons n uc dF dt dx None"
  by (simp add: update_cons_def)

lemma zone_update_plm:
  "plm s' = plm s \<Longrightarrow>
   zone_update lib s' P dt dx th bl i = zone_update lib s P dt dx th bl i"
  by (simp add: zone_update_def zone_states_def)

lemma face_flux_plm:
  "plm s' = plm s \<Longrightarrow> face_flux lib s' P th i = face_flux lib s P th i"
  by (simp add: face_flux_def face_states_def)

lemma zone_stage_rk0:
  assumes "plm s' = plm s"
  shows "zone_stage lib s' (frozen_blend lib p0 0) dt dx th P =
         zone_stage lib s no_blend dt dx th P"
proof -
  have "\<And>i. zone_update lib s' P dt dx th (frozen_blend lib p0 0 i) i =
            zone_update lib s P dt dx th (no_blend i) i"
    unfolding zone_update_plm [OF assms]
    by (simp add: zone_update_def frozen_blend_def no_blend_def update_cons_rk0)
  then show ?thesis by (simp add: zone_stage_def)
qed

lemma face_stage_rk0:
  assumes "plm s' = plm s"
  shows "face_stage lib s' (frozen_blend lib p0 0) dt dx th P =
         face_stage lib s no_blend dt dx th P"
  unfolding face_stage_def face_flux_plm [OF assms]
  by (simp add: frozen_blend_def no_blend_def update_cons_rk0)

lemma rk_stages_rk1: "rk_stages ''rk1'' = Inr (Some [0])"
  by (simp add: rk_stages_def)

lemma update_prim_per_zone_rk1:
  assumes rec: "reconstruction \<in> {''pcm'', ''plm''}"
    and em: "exec_mode \<in> {''cpu'', ''gpu''}"
  shows "update_prim lib mem p dt dx ''per_zone'' reconstruction th ''rk1'' exec_mode =
     \<lparr>caller_p = p, launches = 2,
      outcome = Inr (zone_stage lib \<lparr>runge_kutta = True, plm = (reconstruction = ''plm'')\<rparr>
                       (frozen_blend lib p 0) dt dx th p)\<rparr>"
proof -
  let ?s = "\<lparr>runge_kutta = True, plm = (reconstruction = ''plm'')\<rparr>"
  let ?urk = "prim_to_cons_array lib p (map (mem 0) [0..<length p])"
  have k: "FluxPerZoneSolver_update_prim lib ?s p p (Some ?urk) dt dx 0 th =
        Inr (zone_stage lib ?s (frozen_blend lib p 0) dt dx th p)"
    by (rule update_prim_is_zone_stage [OF blend_of_rk])
       (simp_all add: frozen_blend_def prim_to_cons_array_interior)
  have ti: "''rk1'' \<in> {''rk1'', ''rk2'', ''rk3''}" by simp
  show ?thesis
    using SolverClass_get_rkn [OF rec ti] empty_like_ok [OF em, of "mem 0" p]
    by (auto simp: update_prim_def update_prim_per_zone_def rk_stages_rk1 k)
qed

text \<open>
  C2. With an execution mode the array module knows, the forward Euler path and the
  one-stage Runge-Kutta path return the same array (or raise the same error) and leave
  the same contents in the caller's array, for every fluxing, reconstruction, time step,
  grid spacing and limiter parameter.
\<close>

theorem update_prim_fwd_equals_rk1:
  assumes em: "exec_mode \<in> {''cpu'', ''gpu''}"
  shows "outcome (update_prim lib mem p dt dx fluxing reconstruction plm_theta ''fwd''
                    exec_mode) =
         outcome (update_prim lib mem p dt dx fluxing reconstruction plm_theta ''rk1''
                    exec_mode) \<and>
         caller_p (update_prim lib mem p dt dx fluxing reconstruction plm_theta ''fwd''
                    exec_mode) =
         caller_p (update_prim lib mem p dt dx fluxing reconstruction plm_theta ''rk1''
                    exec_mode)"
proof (cases "reconstruction \<in> {''pcm'', ''plm''}")
  case rec: True
  have ti: "''rk1'' \<in> {''rk1'', ''rk2'', ''rk3''}" by simp
  let ?fwd = "\<lparr>runge_kutta = False, plm = (reconstruction = ''plm'')\<rparr>"
  let ?rkn = "\<lparr>runge_kutta = True, plm = (reconstruction = ''plm'')\<rparr>"
  consider (face) "fluxing = ''per_face''" | (zone) "fluxing = ''per_zone''"
    | (other) "fluxing \<noteq> ''per_face''" "fluxing \<noteq> ''per_zone''"
    by blast
  then show ?thesis
  proof cases
    case face
    have "face_stage lib ?rkn (frozen_blend lib p 0) dt dx plm_theta p =
          face_stage lib ?fwd no_blend dt dx plm_theta p"
      by (rule face_stage_rk0) simp
    then show ?thesis
      unfolding face
      by (simp add: update_prim_per_face_fwd [OF rec em]
          update_prim_per_face_rkn [OF rec ti em rk_stages_rk1] Let_def)
  next
    case zone
    have "zone_stage lib ?rkn (frozen_blend lib p 0) dt dx plm_theta p =
          zone_stage lib ?fwd no_blend dt dx plm_theta p"
      by (rule zone_stage_rk0) simp
    then show ?thesis
      unfolding zone
      by (simp add: update_prim_per_zone_fwd [OF rec] update_prim_per_zone_rk1 [OF rec em])
  next
    case other
    then show ?thesis by (simp add: update_prim_def rk_stages_def)
  qed
next
  case False
  then show ?thesis
    by (simp add: update_prim_def rk_stages_def update_prim_per_face_def
        update_prim_per_zone_def SolverClass_get_unknown Let_def)
qed

theorem update_prim_fwd_equals_rk1_witness:
  "''cpu'' \<in> {''cpu'', ''gpu''} \<and>
   outcome (update_prim
      \<lparr>prim_to_cons = (\<lambda>c. c), cons_to_prim = (\<lambda>c. c), riemann_hlle = (\<lambda>l r k. l)\<rparr>
      (\<lambda>k i. [0, 0, 0]) (replicate 6 [1, 0, 1]) 0.01 0.1 ''per_face'' ''plm'' 1.5 ''fwd''
      ''cpu'') =
   outcome (update_prim
      \<lparr>prim_to_cons = (\<lambda>c. c), cons_to_prim = (\<lambda>c. c), riemann_hlle = (\<lambda>l r k. l)\<rparr>
      (\<lambda>k i. [0, 0, 0]) (replicate 6 [1, 0, 1]) 0.01 0.1 ''per_face'' ''plm'' 1.5 ''rk1''
      ''cpu'')"
proof -
  have h: "''cpu'' \<in> {''cpu'', ''gpu''}" by simp
  show ?thesis
    using h update_prim_fwd_equals_rk1 [OF h,
        of "\<lparr>prim_to_cons = (\<lambda>c. c), cons_to_prim = (\<lambda>c. c), riemann_hlle = (\<lambda>l r k. l)\<rparr>"
           "\<lambda>k i. [0, 0, 0]" "replicate 6 [1, 0, 1]" "0.01" "0.1" "''per_face''" "''plm''" "1.5"]
    by blast
qed

section \<open>Runge-Kutta stages\<close>

lemma rk_stages_rk2: "rk_stages ''rk2'' = Inr (Some [0, 1 / 2])"
  by (simp add: rk_stages_def)

lemma rk_stages_rk3: "rk_stages ''rk3'' = Inr (Some [0, 3 / 4, 1 / 3])"
  by (simp add: rk_stages_def)

lemma NCONS_1: "NCONS 1 = 3" "NCONS (Suc 0) = 3"
  by (simp_all add: NCONS_def)

lemma face_states_explicit:
  "face_states s P th j = (left_state (plm s) P th j, right_state (plm s) P th j)"
  by (simp add: face_states_def left_state_def right_state_def NCONS_1 Let_def)

lemma face_flux_explicit:
  "face_flux lib s P th j = godunov_flux lib (plm s) P th j"
  by (simp add: face_flux_def face_states_explicit godunov_flux_def)

lemma zone_states_explicit:
  assumes "2 \<le> i"
  shows "zone_states s P th i =
     (left_state (plm s) P th (i - 1), right_state (plm s) P th (i - 1),
      left_state (plm s) P th i, right_state (plm s) P th i)"
proof -
  have a: "i - 1 - 1 = i - 2" "i - 1 + 1 = i" "i - 1 + 2 = i + 1" using assms by simp_all
  show ?thesis
    unfolding zone_states_def left_state_def right_state_def NCONS_1(1) Let_def a
    by simp
qed

lemma zone_update_explicit:
  assumes "2 \<le> i"
  shows "zone_update lib s P dt dx th bl i =
     cons_to_prim lib
       (update_cons 3 (prim_to_cons lib (P ! i))
          (\<lambda>q. godunov_flux lib (plm s) P th i ! q - godunov_flux lib (plm s) P th (i - 1) ! q)
          dt dx bl)"
  by (simp add: zone_update_def zone_states_explicit [OF assms] godunov_flux_def NCONS_1)

lemma zone_stage_is_face_stage:
  "zone_stage lib s bl dt dx th P = face_stage lib s bl dt dx th P"
  unfolding zone_stage_def face_stage_def
  by (rule map_cong) (simp_all add: interior_def zone_update_explicit face_flux_explicit)

lemma update_cons_frozen:
  "update_cons 3 uc dF dt dx (frozen_blend lib p0 \<alpha> i) =
     map (\<lambda>q. (1 - \<alpha>) * (uc ! q - dF q * dt / dx) + \<alpha> * prim_to_cons lib (p0 ! i) ! q) [0..<3]"
  by (simp add: update_cons_def frozen_blend_def mult.commute)

lemma face_stage_is_rk_stage:
  "face_stage lib s (frozen_blend lib p0 \<alpha>) dt dx th P = rk_stage lib (plm s) p0 dt dx th \<alpha> P"
  unfolding face_stage_def rk_stage_def
  by (rule map_cong) (simp_all add: interior_def face_flux_explicit update_cons_frozen)

lemma length_rk_stage: "length (rk_stage lib plm_on p0 dt dx th \<alpha> P) = length P"
  by (simp add: rk_stage_def)

lemma rk_stage_guard:
  "i < length P \<Longrightarrow> i < 2 \<or> length P \<le> i + 2 \<Longrightarrow>
   rk_stage lib plm_on p0 dt dx th \<alpha> P ! i = P ! i"
  by (auto simp: rk_stage_def)

lemma rk_stage_interior:
  "2 \<le> i \<Longrightarrow> i + 2 < length P \<Longrightarrow>
   rk_stage lib plm_on p0 dt dx th \<alpha> P ! i =
     (let L = (\<lambda>j. map (\<lambda>q. if plm_on
                then P ! j ! q
                     + 0.5 * plm_minmod (P ! (j - 1) ! q) (P ! j ! q) (P ! (j + 1) ! q) th
                else P ! j ! q) [0..<3]);
          R = (\<lambda>j. map (\<lambda>q. if plm_on
                then P ! (j + 1) ! q
                     - 0.5 * plm_minmod (P ! j ! q) (P ! (j + 1) ! q) (P ! (j + 2) ! q) th
                else P ! (j + 1) ! q) [0..<3]);
          F = (\<lambda>j. riemann_hlle lib (L j) (R j) 1);
          u = prim_to_cons lib (P ! i);
          U_rk = prim_to_cons lib (p0 ! i)
      in cons_to_prim lib
           (map (\<lambda>q. (1 - \<alpha>) * (u ! q - (F i ! q - F (i - 1) ! q) * dt / dx) + \<alpha> * U_rk ! q)
              [0..<3]))"
  by (simp add: rk_stage_def godunov_flux_def left_state_def right_state_def Let_def)

lemma prim_to_cons_array_exact:
  assumes "length u = length p"
  shows "prim_to_cons_array lib p u =
     map (\<lambda>c. if 1 \<le> c \<and> c + 1 < length p then prim_to_cons lib (p ! c) else u ! c)
       [0..<length p]"
  unfolding prim_to_cons_array_closed assms
  by (rule map_cong) auto

text \<open>
  C1. With \<^verbatim>\<open>rk2\<close> the driver runs the stage coefficients \<open>0, 1/2\<close> and with \<^verbatim>\<open>rk3\<close> the
  coefficients \<open>0, 3/4, 1/3\<close>, on the per-zone and on the per-face path: the array it
  returns is the composition of that many stages. A stage keeps the length and the guard
  zones of its array; in an interior zone \<open>i\<close> the conserved state \<open>u\<close> of the zone loses
  \<open>(F i - F (i - 1)) * dt / dx\<close>, with \<open>F j\<close> the flux of the Riemann solver at the face
  between the zones \<open>j\<close> and \<open>j + 1\<close>, and the result is blended as
  \<open>(1 - \<alpha>) * u + \<alpha> * prim_to_cons (p ! i)\<close>, where \<open>p\<close> is the array the step started from,
  the same for every stage. The buffer \<^verbatim>\<open>urk\<close> holds \<open>prim_to_cons (p ! c)\<close> in the zones
  \<open>c\<close> of \<open>[1, ni - 1)\<close>, which include every zone a stage blends, and keeps what it was
  allocated with in the zones \<open>0\<close> and \<open>ni - 1\<close>.
\<close>

theorem update_prim_rk_stages:
  assumes rec: "reconstruction \<in> {''pcm'', ''plm''}"
    and em: "exec_mode \<in> {''cpu'', ''gpu''}"
  shows
    "(let plm_on = (reconstruction = ''plm'');
          stage = rk_stage lib plm_on p dt dx plm_theta
      in rk_stages ''rk2'' = Inr (Some [0, 1 / 2]) \<and>
         rk_stages ''rk3'' = Inr (Some [0, 3 / 4, 1 / 3]) \<and>
         outcome (update_prim lib mem p dt dx ''per_zone'' reconstruction plm_theta ''rk2''
                    exec_mode) = Inr (stage (1 / 2) (stage 0 p)) \<and>
         outcome (update_prim lib mem p dt dx ''per_zone'' reconstruction plm_theta ''rk3''
                    exec_mode) = Inr (stage (1 / 3) (stage (3 / 4) (stage 0 p))) \<and>
         outcome (update_prim lib mem p dt dx ''per_face'' reconstruction plm_theta ''rk2''
                    exec_mode) = Inr (stage (1 / 2) (stage 0 p)) \<and>
         outcome (update_prim lib mem p dt dx ''per_face'' reconstruction plm_theta ''rk3''
                    exec_mode) = Inr (stage (1 / 3) (stage (3 / 4) (stage 0 p))) \<and>
         (\<forall>\<alpha> P. length (stage \<alpha> P) = length P) \<and>
         (\<forall>\<alpha> P i. i < length P \<and> (i < 2 \<or> length P \<le> i + 2) \<longrightarrow> stage \<alpha> P ! i = P ! i) \<and>
         (\<forall>\<alpha> P i. 2 \<le> i \<and> i + 2 < length P \<longrightarrow>
            stage \<alpha> P ! i =
              (let L = (\<lambda>j. map (\<lambda>q. if plm_on
                         then P ! j ! q
                              + 0.5 * plm_minmod (P ! (j - 1) ! q) (P ! j ! q) (P ! (j + 1) ! q)
                                        plm_theta
                         else P ! j ! q) [0..<3]);
                   R = (\<lambda>j. map (\<lambda>q. if plm_on
                         then P ! (j + 1) ! q
                              - 0.5 * plm_minmod (P ! j ! q) (P ! (j + 1) ! q) (P ! (j + 2) ! q)
                                        plm_theta
                         else P ! (j + 1) ! q) [0..<3]);
                   F = (\<lambda>j. riemann_hlle lib (L j) (R j) 1);
                   u = prim_to_cons lib (P ! i);
                   U_rk = prim_to_cons lib (p ! i)
               in cons_to_prim lib
                    (map (\<lambda>q. (1 - \<alpha>) * (u ! q - (F i ! q - F (i - 1) ! q) * dt / dx)
                              + \<alpha> * U_rk ! q) [0..<3]))) \<and>
         (\<forall>u. length u = length p \<longrightarrow>
            prim_to_cons_array lib p u =
              map (\<lambda>c. if 1 \<le> c \<and> c + 1 < length p then prim_to_cons lib (p ! c) else u ! c)
                [0..<length p]))"
proof -
  let ?s = "\<lparr>runge_kutta = True, plm = (reconstruction = ''plm'')\<rparr>"
  let ?st = "rk_stage lib (reconstruction = ''plm'') p dt dx plm_theta"
  have zs: "zone_stage lib ?s (frozen_blend lib p \<alpha>) dt dx plm_theta P = ?st \<alpha> P" for \<alpha> P
    using face_stage_is_rk_stage [of lib ?s p \<alpha> dt dx plm_theta P]
    by (simp add: zone_stage_is_face_stage)
  have fs: "face_stage lib ?s (frozen_blend lib p \<alpha>) dt dx plm_theta P = ?st \<alpha> P" for \<alpha> P
    using face_stage_is_rk_stage [of lib ?s p \<alpha> dt dx plm_theta P] by simp
  have t2: "''rk2'' \<in> {''rk1'', ''rk2'', ''rk3''}" and t3: "''rk3'' \<in> {''rk1'', ''rk2'', ''rk3''}"
    by simp_all
  have z2: "outcome (update_prim lib mem p dt dx ''per_zone'' reconstruction plm_theta ''rk2''
      exec_mode) = Inr (?st (1 / 2) (?st 0 p))"
    using update_prim_per_zone_rkn [OF rec t2 em rk_stages_rk2, of lib mem p dt dx plm_theta]
    by (simp add: zs)
  have z3: "outcome (update_prim lib mem p dt dx ''per_zone'' reconstruction plm_theta ''rk3''
      exec_mode) = Inr (?st (1 / 3) (?st (3 / 4) (?st 0 p)))"
    using update_prim_per_zone_rkn [OF rec t3 em rk_stages_rk3, of lib mem p dt dx plm_theta]
    by (simp add: zs)
  have f2: "outcome (update_prim lib mem p dt dx ''per_face'' reconstruction plm_theta ''rk2''
      exec_mode) = Inr (?st (1 / 2) (?st 0 p))"
    using update_prim_per_face_rkn [OF rec t2 em rk_stages_rk2, of lib mem p dt dx plm_theta]
    by (simp add: fs Let_def)
  have f3: "outcome (update_prim lib mem p dt dx ''per_face'' reconstruction plm_theta ''rk3''
      exec_mode) = Inr (?st (1 / 3) (?st (3 / 4) (?st 0 p)))"
    using update_prim_per_face_rkn [OF rec t3 em rk_stages_rk3, of lib mem p dt dx plm_theta]
    by (simp add: fs Let_def)
  have len: "\<forall>\<alpha> P. length (?st \<alpha> P) = length P"
    by (simp add: length_rk_stage)
  have guard: "\<forall>\<alpha> P i. i < length P \<and> (i < 2 \<or> length P \<le> i + 2) \<longrightarrow> ?st \<alpha> P ! i = P ! i"
    using rk_stage_guard by blast
  note int = rk_stage_interior [of _ _ lib "reconstruction = ''plm''" p dt dx plm_theta]
  note urk = prim_to_cons_array_exact [of _ p lib]
  show ?thesis
    unfolding Let_def
    by (intro conjI allI impI)
       (simp_all only: rk_stages_rk2 rk_stages_rk3 z2 z3 f2 f3 len guard int [unfolded Let_def]
          urk)
qed

theorem update_prim_rk_stages_witness:
  "''plm'' \<in> {''pcm'', ''plm''} \<and> ''cpu'' \<in> {''cpu'', ''gpu''} \<and>
   outcome (update_prim
      \<lparr>prim_to_cons = map (\<lambda>x. 2 * x), cons_to_prim = map (\<lambda>x. x / 2),
       riemann_hlle = (\<lambda>l r k. map2 (+) l r)\<rparr>
      (\<lambda>k i. [0, 0, 0])
      [[1, 0, 1], [2, 0, 2], [3, 1, 3], [5, 1, 4], [8, 2, 6], [9, 2, 7]]
      1 2 ''per_zone'' ''plm'' (3 / 2) ''rk2'' ''cpu'') =
   Inr [[1, 0, 1], [2, 0, 2], [653 / 256, 25 / 32, 1365 / 512],
        [1761 / 512, 23 / 32, 1627 / 512], [8, 2, 6], [9, 2, 7]]"
proof -
  let ?lib = "\<lparr>prim_to_cons = map (\<lambda>x. 2 * x), cons_to_prim = map (\<lambda>x. x / 2),
       riemann_hlle = (\<lambda>l r k. map2 (+) l r)\<rparr>"
  let ?p = "[[1, 0, 1], [2, 0, 2], [3, 1, 3], [5, 1, 4], [8, 2, 6], [9, 2, 7::real]]"
  have h: "''plm'' \<in> {''pcm'', ''plm''}" "''cpu'' \<in> {''cpu'', ''gpu''}" by simp_all
  have s0: "rk_stage ?lib True ?p 1 2 (3 / 2) 0 ?p =
      [[1, 0, 1], [2, 0, 2], [37 / 16, 3 / 4, 41 / 16], [7 / 2, 3 / 4, 51 / 16],
       [8, 2, 6], [9, 2, 7]]"
    by code_simp
  have s1: "rk_stage ?lib True ?p 1 2 (3 / 2) (1 / 2)
       [[1, 0, 1], [2, 0, 2], [37 / 16, 3 / 4, 41 / 16], [7 / 2, 3 / 4, 51 / 16],
        [8, 2, 6], [9, 2, 7]] =
      [[1, 0, 1], [2, 0, 2], [653 / 256, 25 / 32, 1365 / 512],
       [1761 / 512, 23 / 32, 1627 / 512], [8, 2, 6], [9, 2, 7]]"
    by code_simp
  have "outcome (update_prim ?lib (\<lambda>k i. [0, 0, 0]) ?p 1 2 ''per_zone'' ''plm'' (3 / 2)
      ''rk2'' ''cpu'') =
      Inr (rk_stage ?lib True ?p 1 2 (3 / 2) (1 / 2) (rk_stage ?lib True ?p 1 2 (3 / 2) 0 ?p))"
    using update_prim_rk_stages [OF h, of ?lib ?p 1 2 "3 / 2" "\<lambda>k i. [0, 0, 0]"]
    by (simp add: Let_def)
  then show ?thesis using h by (simp only: s0 s1 simp_thms)
qed

text \<open>
  The buffer \<^verbatim>\<open>urk\<close> differs from the conserved state of \<open>p\<close> in its two end zones,
  which \<^verbatim>\<open>prim_to_cons_array\<close> does not write: here the buffer was allocated holding
  zeros.
\<close>

theorem urk_end_zones_not_filled:
  "prim_to_cons_array
      \<lparr>prim_to_cons = map (\<lambda>x. 2 * x), cons_to_prim = map (\<lambda>x. x / 2),
       riemann_hlle = (\<lambda>l r k. map2 (+) l r)\<rparr>
      [[1, 0, 1], [2, 0, 2], [3, 1, 3], [5, 1, 4]]
      [[0, 0, 0], [0, 0, 0], [0, 0, 0], [0, 0, 0]] =
     [[0, 0, 0], [4, 0, 4], [6, 2, 6], [0, 0, 0]] \<and>
   map (prim_to_cons
      \<lparr>prim_to_cons = map (\<lambda>x. 2 * x), cons_to_prim = map (\<lambda>x. x / 2),
       riemann_hlle = (\<lambda>l r k. map2 (+) l r)\<rparr>)
      [[1, 0, 1], [2, 0, 2], [3, 1, 3], [5, 1, 4]] =
     [[2, 0, 2], [4, 0, 4], [6, 2, 6], [10, 2, 8]] \<and>
   prim_to_cons_array
      \<lparr>prim_to_cons = map (\<lambda>x. 2 * x), cons_to_prim = map (\<lambda>x. x / 2),
       riemann_hlle = (\<lambda>l r k. map2 (+) l r)\<rparr>
      [[1, 0, 1], [2, 0, 2], [3, 1, 3], [5, 1, 4]]
      [[0, 0, 0], [0, 0, 0], [0, 0, 0], [0, 0, 0]] \<noteq>
   map (prim_to_cons
      \<lparr>prim_to_cons = map (\<lambda>x. 2 * x), cons_to_prim = map (\<lambda>x. x / 2),
       riemann_hlle = (\<lambda>l r k. map2 (+) l r)\<rparr>)
      [[1, 0, 1], [2, 0, 2], [3, 1, 3], [5, 1, 4]]"
proof -
  have u: "[Suc 0..<3] = [Suc 0, 2]" by (simp add: upt_rec)
  show ?thesis
    by (simp add: prim_to_cons_array_def FOR_RANGE_1D_def u)
qed

section \<open>Per-face kernels and rejected configurations\<close>

lemma update_cons_nth:
  "q < n \<Longrightarrow>
   update_cons n uc dF dt dx None ! q = uc ! q - dF q * dt / dx \<and>
   update_cons n uc dF dt dx (Some (rk, c)) ! q =
     (uc ! q - dF q * dt / dx) * (1 - rk) + rk * c ! q"
  by (simp add: update_cons_def)

lemma blend_of_cases:
  "(runge_kutta s \<longrightarrow> urk = Some u) \<Longrightarrow>
   blend_of s urk rk = Inr (\<lambda>i. if runge_kutta s then Some (rk, u ! i) else None)"
  by (auto simp: blend_of_def)

text \<open>
  C4. The flux kernel of the per-face solver writes \<open>F[i + 1]\<close> for the indices \<open>i\<close> of
  \<open>[1, ni - 2)\<close>, each from one call of the Riemann solver on the two states of the
  face between the zones \<open>i\<close> and \<open>i + 1\<close>, and leaves every other slot of \<open>F\<close> as it
  was. Without PLM the left state is zone \<open>i\<close> and the right state zone \<open>i + 1\<close>; with
  PLM the left state is zone \<open>i\<close> plus half its limited slope and the right state zone
  \<open>i + 1\<close> minus half its limited slope, component by component. The update kernel rewrites the
  zones of \<open>[2, ni - 2)\<close> in place: zone \<open>i\<close> is converted to conserved variables,
  loses \<open>(F[i + 1] - F[i]) * dt / dx\<close>, is blended with \<^verbatim>\<open>urk\<close> when the kernel is
  compiled for Runge-Kutta, and is converted back into the same slot; every other zone
  is kept.
\<close>

theorem per_face_kernels_ranges:
  assumes len: "length f = length p"
    and urk: "runge_kutta s \<longrightarrow> urk = Some u"
  shows
    "(let ni = length p;
          F = FluxPerFaceSolver_compute_godunov_fluxes lib s p f plm_theta
      in length F = length f \<and>
         (\<forall>i. 1 \<le> i \<and> i + 2 < ni \<longrightarrow>
            F ! (i + 1) =
              riemann_hlle lib
                (map (\<lambda>q. if plm s
                          then p ! i ! q
                               + 0.5 * plm_minmod (p ! (i - 1) ! q) (p ! i ! q) (p ! (i + 1) ! q)
                                         plm_theta
                          else p ! i ! q) [0..<3])
                (map (\<lambda>q. if plm s
                          then p ! (i + 1) ! q
                               - 0.5 * plm_minmod (p ! i ! q) (p ! (i + 1) ! q) (p ! (i + 2) ! q)
                                         plm_theta
                          else p ! (i + 1) ! q) [0..<3])
                1) \<and>
         (\<forall>j < length f. j < 2 \<or> ni \<le> j + 1 \<longrightarrow> F ! j = f ! j) \<and>
         (\<exists>p'. FluxPerFaceSolver_update_prim lib s p f urk dt dx rk = Inr p' \<and>
            length p' = length p \<and>
            (\<forall>i. 2 \<le> i \<and> i + 2 < ni \<longrightarrow>
               p' ! i = cons_to_prim lib
                          (update_cons 3 (prim_to_cons lib (p ! i))
                             (\<lambda>q. f ! (i + 1) ! q - f ! i ! q) dt dx
                             (if runge_kutta s then Some (rk, u ! i) else None))) \<and>
            (\<forall>i < ni. i < 2 \<or> ni \<le> i + 2 \<longrightarrow> p' ! i = p ! i)) \<and>
         (\<forall>uc dF c. \<forall>q < 3.
            update_cons 3 uc dF dt dx None ! q = uc ! q - dF q * dt / dx \<and>
            update_cons 3 uc dF dt dx (Some (rk, c)) ! q =
              (uc ! q - dF q * dt / dx) * (1 - rk) + rk * c ! q))"
proof -
  let ?F = "FluxPerFaceSolver_compute_godunov_fluxes lib s p f plm_theta"
  let ?b = "\<lambda>i. if runge_kutta s then Some (rk, u ! i) else None"
  let ?p' = "map (\<lambda>j. if interior (length p) j
                       then face_update lib f dt dx (?b j) j (p ! j)
                       else p ! j) [0..<length p]"
  have F1: "length ?F = length f" by (rule length_compute_godunov_fluxes)
  have F2: "\<forall>i. 1 \<le> i \<and> i + 2 < length p \<longrightarrow>
      ?F ! (i + 1) =
        riemann_hlle lib
          (map (\<lambda>q. if plm s
                    then p ! i ! q
                         + 0.5 * plm_minmod (p ! (i - 1) ! q) (p ! i ! q) (p ! (i + 1) ! q)
                                   plm_theta
                    else p ! i ! q) [0..<3])
          (map (\<lambda>q. if plm s
                    then p ! (i + 1) ! q
                         - 0.5 * plm_minmod (p ! i ! q) (p ! (i + 1) ! q) (p ! (i + 2) ! q)
                                   plm_theta
                    else p ! (i + 1) ! q) [0..<3])
          1"
  proof (intro allI impI)
    fix i
    assume i: "1 \<le> i \<and> i + 2 < length p"
    then have "?F ! (i + 1) = face_flux lib s p plm_theta i"
      using len by (simp add: compute_godunov_fluxes_closed)
    then show "?F ! (i + 1) =
        riemann_hlle lib
          (map (\<lambda>q. if plm s
                    then p ! i ! q
                         + 0.5 * plm_minmod (p ! (i - 1) ! q) (p ! i ! q) (p ! (i + 1) ! q)
                                   plm_theta
                    else p ! i ! q) [0..<3])
          (map (\<lambda>q. if plm s
                    then p ! (i + 1) ! q
                         - 0.5 * plm_minmod (p ! i ! q) (p ! (i + 1) ! q) (p ! (i + 2) ! q)
                                   plm_theta
                    else p ! (i + 1) ! q) [0..<3])
          1"
      unfolding face_flux_explicit godunov_flux_def left_state_def right_state_def .
  qed
  have F3: "\<forall>j < length f. j < 2 \<or> length p \<le> j + 1 \<longrightarrow> ?F ! j = f ! j"
    by (auto simp: compute_godunov_fluxes_closed)
  have U1: "FluxPerFaceSolver_update_prim lib s p f urk dt dx rk = Inr ?p'"
    by (rule FluxPerFaceSolver_update_prim_closed [OF blend_of_cases [OF urk]])
  have U2: "length ?p' = length p" by simp
  have U3: "\<forall>i. 2 \<le> i \<and> i + 2 < length p \<longrightarrow>
      ?p' ! i = cons_to_prim lib
                  (update_cons 3 (prim_to_cons lib (p ! i))
                     (\<lambda>q. f ! (i + 1) ! q - f ! i ! q) dt dx (?b i))"
    by (simp add: interior_def face_update_def)
  have U4: "\<forall>i < length p. i < 2 \<or> length p \<le> i + 2 \<longrightarrow> ?p' ! i = p ! i"
    by (auto simp: interior_def)
  have U: "\<exists>p'. FluxPerFaceSolver_update_prim lib s p f urk dt dx rk = Inr p' \<and>
      length p' = length p \<and>
      (\<forall>i. 2 \<le> i \<and> i + 2 < length p \<longrightarrow>
         p' ! i = cons_to_prim lib
                    (update_cons 3 (prim_to_cons lib (p ! i))
                       (\<lambda>q. f ! (i + 1) ! q - f ! i ! q) dt dx (?b i))) \<and>
      (\<forall>i < length p. i < 2 \<or> length p \<le> i + 2 \<longrightarrow> p' ! i = p ! i)"
    using U1 U2 U3 U4 by blast
  have C: "\<forall>uc dF c. \<forall>q < 3.
      update_cons 3 uc dF dt dx None ! q = uc ! q - dF q * dt / dx \<and>
      update_cons 3 uc dF dt dx (Some (rk, c)) ! q =
        (uc ! q - dF q * dt / dx) * (1 - rk) + rk * c ! q"
    using update_cons_nth [of _ 3 _ _ dt dx rk] by blast
  show ?thesis
    using F1 F2 F3 U C unfolding Let_def by (intro conjI)
qed

theorem per_face_kernels_ranges_witness:
  "length (replicate 6 [0, 0, 0::real]) =
     length [[1, 0, 1], [2, 0, 2], [3, 1, 3], [5, 1, 4], [8, 2, 6], [9, 2, 7::real]] \<and>
   FluxPerFaceSolver_compute_godunov_fluxes
      \<lparr>prim_to_cons = map (\<lambda>x. 2 * x), cons_to_prim = map (\<lambda>x. x / 2),
       riemann_hlle = (\<lambda>l r k. map2 (+) l r)\<rparr>
      \<lparr>runge_kutta = True, plm = True\<rparr>
      [[1, 0, 1], [2, 0, 2], [3, 1, 3], [5, 1, 4], [8, 2, 6], [9, 2, 7]]
      (replicate 6 [0, 0, 0]) (3 / 2) ! 2 = [19 / 4, 1, 5] \<and>
   FluxPerFaceSolver_compute_godunov_fluxes
      \<lparr>prim_to_cons = map (\<lambda>x. 2 * x), cons_to_prim = map (\<lambda>x. x / 2),
       riemann_hlle = (\<lambda>l r k. map2 (+) l r)\<rparr>
      \<lparr>runge_kutta = True, plm = True\<rparr>
      [[1, 0, 1], [2, 0, 2], [3, 1, 3], [5, 1, 4], [8, 2, 6], [9, 2, 7]]
      (replicate 6 [0, 0, 0]) (3 / 2) ! 5 = [0, 0, 0]"
proof -
  let ?lib = "\<lparr>prim_to_cons = map (\<lambda>x. 2 * x), cons_to_prim = map (\<lambda>x. x / 2),
       riemann_hlle = (\<lambda>l r k. map2 (+) l r)\<rparr>"
  let ?s = "\<lparr>runge_kutta = True, plm = True\<rparr>"
  let ?p = "[[1, 0, 1], [2, 0, 2], [3, 1, 3], [5, 1, 4], [8, 2, 6], [9, 2, 7::real]]"
  let ?f = "replicate 6 [0, 0, 0::real]"
  have len: "length ?f = length ?p" by simp
  have urk: "runge_kutta ?s \<longrightarrow> Some ?f = Some ?f" by simp
  note t = per_face_kernels_ranges [OF len urk, of ?lib "3 / 2" 1 2 0, unfolded Let_def]
  have a: "FluxPerFaceSolver_compute_godunov_fluxes ?lib ?s ?p ?f (3 / 2) ! (1 + 1) =
        riemann_hlle ?lib
          (map (\<lambda>q. if plm ?s
                    then ?p ! 1 ! q
                         + 0.5 * plm_minmod (?p ! (1 - 1) ! q) (?p ! 1 ! q) (?p ! (1 + 1) ! q)
                                   (3 / 2)
                    else ?p ! 1 ! q) [0..<3])
          (map (\<lambda>q. if plm ?s
                    then ?p ! (1 + 1) ! q
                         - 0.5 * plm_minmod (?p ! 1 ! q) (?p ! (1 + 1) ! q) (?p ! (1 + 2) ! q)
                                   (3 / 2)
                    else ?p ! (1 + 1) ! q) [0..<3])
          1"
    using t by simp
  have v: "riemann_hlle ?lib
          (map (\<lambda>q. if plm ?s
                    then ?p ! 1 ! q
                         + 0.5 * plm_minmod (?p ! (1 - 1) ! q) (?p ! 1 ! q) (?p ! (1 + 1) ! q)
                                   (3 / 2)
                    else ?p ! 1 ! q) [0..<3])
          (map (\<lambda>q. if plm ?s
                    then ?p ! (1 + 1) ! q
                         - 0.5 * plm_minmod (?p ! 1 ! q) (?p ! (1 + 1) ! q) (?p ! (1 + 2) ! q)
                                   (3 / 2)
                    else ?p ! (1 + 1) ! q) [0..<3])
          1 = [19 / 4, 1, 5]"
    by code_simp
  have b: "FluxPerFaceSolver_compute_godunov_fluxes ?lib ?s ?p ?f (3 / 2) ! 5 = ?f ! 5"
    using t by simp
  have two: "(1::nat) + 1 = 2" by simp
  have a2: "FluxPerFaceSolver_compute_godunov_fluxes ?lib ?s ?p ?f (3 / 2) ! (1 + 1) =
        [19 / 4, 1, 5]"
    by (rule trans [OF a v])
  have a3: "FluxPerFaceSolver_compute_godunov_fluxes ?lib ?s ?p ?f (3 / 2) ! 2 = [19 / 4, 1, 5]"
    using a2 unfolding two .
  have b2: "FluxPerFaceSolver_compute_godunov_fluxes ?lib ?s ?p ?f (3 / 2) ! 5 = [0, 0, 0]"
    using b by simp
  show ?thesis using len a3 b2 by (intro conjI)
qed

text \<open>
  C9. The two-dimensional driver raises for every fluxing other than \<^verbatim>\<open>per_zone\<close>, and
  both drivers raise for every time integration that is none of \<^verbatim>\<open>fwd\<close>, \<^verbatim>\<open>rk1\<close>,
  \<^verbatim>\<open>rk2\<close>, \<^verbatim>\<open>rk3\<close>. In each case no kernel has been launched and the caller's array
  holds what it held.
\<close>

theorem drivers_reject_configuration:
  "(fluxing \<noteq> ''per_zone'' \<longrightarrow>
      update_prim2d lib mem p2 dt dx fluxing reconstruction plm_theta time_integration
        exec_mode = \<lparr>caller_p = p2, launches = 0, outcome = Inl ValueError\<rparr>) \<and>
   (time_integration \<notin> {''fwd'', ''rk1'', ''rk2'', ''rk3''} \<longrightarrow>
      update_prim lib mem p dt dx fluxing reconstruction plm_theta time_integration
        exec_mode = \<lparr>caller_p = p, launches = 0, outcome = Inl ValueError\<rparr> \<and>
      update_prim2d lib mem p2 dt dx fluxing reconstruction plm_theta time_integration
        exec_mode = \<lparr>caller_p = p2, launches = 0, outcome = Inl ValueError\<rparr>)"
proof (intro conjI impI)
  assume "fluxing \<noteq> ''per_zone''"
  then show "update_prim2d lib mem p2 dt dx fluxing reconstruction plm_theta time_integration
      exec_mode = \<lparr>caller_p = p2, launches = 0, outcome = Inl ValueError\<rparr>"
    by (auto simp: update_prim2d_def Let_def rk_stages_def)
next
  assume ti: "time_integration \<notin> {''fwd'', ''rk1'', ''rk2'', ''rk3''}"
  then have "rk_stages time_integration = Inl ValueError"
    by (simp add: rk_stages_def)
  then show "update_prim lib mem p dt dx fluxing reconstruction plm_theta time_integration
      exec_mode = \<lparr>caller_p = p, launches = 0, outcome = Inl ValueError\<rparr>"
    and "update_prim2d lib mem p2 dt dx fluxing reconstruction plm_theta time_integration
      exec_mode = \<lparr>caller_p = p2, launches = 0, outcome = Inl ValueError\<rparr>"
    by (simp_all add: update_prim_def update_prim2d_def)
qed

theorem drivers_reject_configuration_witness:
  "''per_face'' \<noteq> ''per_zone'' \<and> ''rk4'' \<notin> {''fwd'', ''rk1'', ''rk2'', ''rk3''} \<and>
   update_prim2d
      \<lparr>prim_to_cons = (\<lambda>c. c), cons_to_prim = (\<lambda>c. c), riemann_hlle = (\<lambda>l r k. l)\<rparr>
      (\<lambda>i j. [0, 0, 0, 0]) (replicate 5 (replicate 5 [1, 0, 0, 1])) 0.01 0.1 ''per_face''
      ''pcm'' 2 ''rk2'' ''cpu'' =
     \<lparr>caller_p = replicate 5 (replicate 5 [1, 0, 0, 1]), launches = 0,
      outcome = Inl ValueError\<rparr> \<and>
   update_prim
      \<lparr>prim_to_cons = (\<lambda>c. c), cons_to_prim = (\<lambda>c. c), riemann_hlle = (\<lambda>l r k. l)\<rparr>
      (\<lambda>i j. [0, 0, 0]) (replicate 6 [1, 0, 1]) 0.01 0.1 ''per_zone'' ''pcm'' 2 ''rk4''
      ''cpu'' =
     \<lparr>caller_p = replicate 6 [1, 0, 1], launches = 0, outcome = Inl ValueError\<rparr>"
proof -
  let ?lib = "\<lparr>prim_to_cons = (\<lambda>c. c), cons_to_prim = (\<lambda>c. c), riemann_hlle = (\<lambda>l r k. l)\<rparr>"
  have a: "''per_face'' \<noteq> ''per_zone''" and b: "''rk4'' \<notin> {''fwd'', ''rk1'', ''rk2'', ''rk3''}"
    by simp_all
  have "update_prim2d ?lib (\<lambda>i j. [0, 0, 0, 0]) (replicate 5 (replicate 5 [1, 0, 0, 1]))
      0.01 0.1 ''per_face'' ''pcm'' 2 ''rk2'' ''cpu'' =
      \<lparr>caller_p = replicate 5 (replicate 5 [1, 0, 0, 1]), launches = 0,
       outcome = Inl ValueError\<rparr>"
    using a drivers_reject_configuration [of "''per_face''" ?lib "\<lambda>i j. [0, 0, 0, 0]"
        "replicate 5 (replicate 5 [1, 0, 0, 1])" "0.01" "0.1" "''pcm''" 2 "''rk2''" "''cpu''"]
    by blast
  moreover have "update_prim ?lib (\<lambda>i j. [0, 0, 0]) (replicate 6 [1, 0, 1]) 0.01 0.1
      ''per_zone'' ''pcm'' 2 ''rk4'' ''cpu'' =
      \<lparr>caller_p = replicate 6 [1, 0, 1], launches = 0, outcome = Inl ValueError\<rparr>"
    using b drivers_reject_configuration [of "''per_zone''" ?lib "\<lambda>i j. [0, 0, 0]" _
        "0.01" "0.1" "''pcm''" 2 "''rk4''" "''cpu''" "replicate 6 [1, 0, 1]"]
    by blast
  ultimately show ?thesis using a b by blast
qed

section \<open>SRHD patch stage\<close>

text \<open>
  C6. After \<^verbatim>\<open>Patch.advance_rk\<close> the time of the patch is
  \<open>t0 * rk_param + (t0 + dt) * (1 - rk_param)\<close> for the start-of-step time \<open>t0\<close>;
  \<^verbatim>\<open>conserved1\<close> is the buffer the kernel has written and \<^verbatim>\<open>conserved2\<close> is the former
  \<^verbatim>\<open>conserved1\<close>; the conversion kernel is given the scale factor
  \<open>a0 + adot * t\<close> and the advance kernel is given \<open>a0\<close>, \<open>adot\<close> and \<open>t\<close>, with \<open>t\<close> the
  time of the patch at the call; and the scale factor of the patch afterwards is
  \<open>a0 + adot * t\<close> at its new time.
\<close>

theorem Patch_advance_rk_time_and_swap:
  "time (Patch_advance_rk lib self rk_param dt) =
     time0 self * rk_param + (time0 self + dt) * (1 - rk_param) \<and>
   conserved2 (Patch_advance_rk lib self rk_param dt) = conserved1 self \<and>
   conserved1 (Patch_advance_rk lib self rk_param dt) =
     srhd_1d_advance_rk lib (num_zones self) (faces self) (conserved0 self)
       (primitive1 (recompute_primitive lib self)) (conserved1 self) (conserved2 self)
       (scale_factor_initial self) (scale_factor_derivative self) (time self) rk_param dt
       (coordinates self) \<and>
   primitive1 (recompute_primitive lib self) =
     srhd_1d_conserved_to_primitive lib (num_zones self) (faces self) (conserved1 self)
       (primitive1 self)
       (scale_factor_initial self + scale_factor_derivative self * time self)
       (coordinates self) \<and>
   scale_factor (Patch_advance_rk lib self rk_param dt) =
     scale_factor_initial self +
     scale_factor_derivative self * time (Patch_advance_rk lib self rk_param dt) \<and>
   time0 (Patch_advance_rk lib self rk_param dt) = time0 self \<and>
   conserved0 (Patch_advance_rk lib self rk_param dt) = conserved0 self"
  by (simp add: Patch_advance_rk_def recompute_primitive_def scale_factor_def Let_def)

theorem Patch_advance_rk_time_and_swap_witness:
  "time (Patch_advance_rk
      \<lparr>srhd_1d_primitive_to_conserved = (\<lambda>n f p u a c. p),
       srhd_1d_conserved_to_primitive = (\<lambda>n f u p a c. u),
       srhd_1d_advance_rk = (\<lambda>n f u0 p1 u1 u2 a0 adot t rk dt c. u1)\<rparr>
      \<lparr>num_zones = 1, faces = [0, 1], coordinates = 0, scale_factor_initial = 1,
       scale_factor_derivative = 0, time = 2, time0 = 2, primitive1 = [[1, 0, 0, 1]],
       conserved0 = [[1, 0, 0, 1]], conserved1 = [[1, 0, 0, 1]], conserved2 = [[1, 0, 0, 1]]\<rparr>
      (1 / 2) 1) = 5 / 2"
  using Patch_advance_rk_time_and_swap [of
      "\<lparr>srhd_1d_primitive_to_conserved = (\<lambda>n f p u a c. p),
        srhd_1d_conserved_to_primitive = (\<lambda>n f u p a c. u),
        srhd_1d_advance_rk = (\<lambda>n f u0 p1 u1 u2 a0 adot t rk dt c. u1)\<rparr>"
      "\<lparr>num_zones = 1, faces = [0, 1], coordinates = 0, scale_factor_initial = 1,
        scale_factor_derivative = 0, time = 2, time0 = 2, primitive1 = [[1, 0, 0, 1]],
        conserved0 = [[1, 0, 0, 1]], conserved1 = [[1, 0, 0, 1]], conserved2 = [[1, 0, 0, 1]]\<rparr>"
      "1 / 2" 1]
  by simp

section \<open>SRHD boundary exchange, guard by guard\<close>

lemma nat_twice_int: "nat (2 * int n) = 2 * n"
  by (simp add: nat_mult_distrib)

lemma py_slice_last_interior:
  "0 < ng \<Longrightarrow> 2 * ng \<le> length xs \<Longrightarrow>
   py_slice xs (Some (- 2 * int ng)) (Some (- int ng)) = take ng (drop (length xs - 2 * ng) xs)"
  by (auto simp: py_slice_def slice_range_def slice_bound_def nat_diff_distrib' max_def
      nat_twice_int)

lemma py_slice_first_interior:
  "2 * ng \<le> length xs \<Longrightarrow>
   py_slice xs (Some (int ng)) (Some (2 * int ng)) = take ng (drop ng xs)"
  by (auto simp: py_slice_def slice_range_def slice_bound_def min_def nat_twice_int)

lemma assign_slice_left_guard:
  "length v = ng \<Longrightarrow> ng \<le> length xs \<Longrightarrow>
   assign_slice xs None (Some (int ng)) v = Inr (v @ drop ng xs)"
  by (auto simp: assign_slice_def slice_range_def slice_bound_def min_def)

lemma assign_slice_right_guard:
  "0 < ng \<Longrightarrow> length v = ng \<Longrightarrow> ng \<le> length xs \<Longrightarrow>
   assign_slice xs (Some (- int ng)) None v = Inr (take (length xs - ng) xs @ v)"
  by (auto simp: assign_slice_def slice_range_def slice_bound_def nat_diff_distrib' max_def)

lemma length_left_edge: "2 * ng \<le> length a \<Longrightarrow> length (left_edge ng a) = ng"
  by (simp add: left_edge_def)

lemma length_right_edge: "2 * ng \<le> length a \<Longrightarrow> length (right_edge ng a) = ng"
  by (simp add: right_edge_def)

lemma left_edge_after_left_guard:
  "length L = ng \<Longrightarrow> left_edge ng (L @ drop ng a) = left_edge ng a"
  by (simp add: left_edge_def)

lemma right_edge_after_left_guard:
  "length L = ng \<Longrightarrow> 3 * ng \<le> length a \<Longrightarrow>
   right_edge ng (L @ drop ng a) = right_edge ng a"
  by (simp add: right_edge_def)

lemma copy_rows_left_guard:
  assumes "py_slice (heap ! src) slo shi = v" "length v = ng" "ng \<le> length (heap ! dst)"
  shows "copy_rows heap dst None (Some (int ng)) src slo shi =
           Inr (heap[dst := v @ drop ng (heap ! dst)])"
  using assms by (simp add: copy_rows_def assign_slice_left_guard)

lemma copy_rows_right_guard:
  assumes "py_slice (heap ! src) slo shi = v" "length v = ng" "ng \<le> length (heap ! dst)"
    "0 < ng"
  shows "copy_rows heap dst (Some (- int ng)) None src slo shi =
           Inr (heap[dst := take (length (heap ! dst) - ng) (heap ! dst) @ v])"
  using assms by (simp add: copy_rows_def assign_slice_right_guard)

lemma fill_guards:
  assumes ng: "0 < ng"
    and a0: "a0 < length heap"
    and size: "3 * ng \<le> length (heap ! a0)"
    and L: "length L = ng"
    and src: "py_slice (heap[a0 := L @ drop ng (heap ! a0)] ! src) slo shi = R"
    and R: "length R = ng"
  shows "copy_rows (heap[a0 := L @ drop ng (heap ! a0)]) a0 (Some (- int ng)) None src slo shi =
           Inr (heap[a0 := L @ interior_rows ng (heap ! a0) @ R])"
proof -
  let ?A1 = "L @ drop ng (heap ! a0)"
  let ?h1 = "heap[a0 := ?A1]"
  have h1: "?h1 ! a0 = ?A1" using a0 by simp
  have len: "length ?A1 = length (heap ! a0)" using L size by simp
  have "copy_rows ?h1 a0 (Some (- int ng)) None src slo shi =
        Inr (?h1[a0 := take (length (?h1 ! a0) - ng) (?h1 ! a0) @ R])"
    by (rule copy_rows_right_guard [OF src R _ ng]) (use h1 len size in simp)
  then have c: "copy_rows ?h1 a0 (Some (- int ng)) None src slo shi =
        Inr (?h1[a0 := take (length ?A1 - ng) ?A1 @ R])"
    unfolding h1 .
  have t: "take (length ?A1 - ng) ?A1 = L @ interior_rows ng (heap ! a0)"
    using L size by (simp add: interior_rows_def mult_2)
  show ?thesis unfolding c t by simp
qed

lemma ring_neighbours:
  "i < n \<Longrightarrow>
   left_patch n i = (if i = 0 then n - 1 else i - 1) \<and>
   right_patch n i = (if i = n - 1 then 0 else i + 1)"
proof -
  assume i: "i < n"
  have l: "left_patch n i = (if i = 0 then n - 1 else i - 1)"
  proof (cases "i = 0")
    case True
    then show ?thesis using i by (simp add: left_patch_def)
  next
    case False
    then have "i + n - 1 = (i - 1) + n" by simp
    then have "left_patch n i = ((i - 1) + n) mod n" by (simp add: left_patch_def)
    also have "\<dots> = i - 1" using i by simp
    finally show ?thesis using False by simp
  qed
  have r: "right_patch n i = (if i = n - 1 then 0 else i + 1)"
  proof (cases "i = n - 1")
    case True
    then have "i + n + 1 = n + n" using i by simp
    then show ?thesis using True by (simp add: right_patch_def)
  next
    case False
    then have lt: "i + 1 < n" using i by simp
    have "i + n + 1 = (i + 1) + n" by simp
    then have "right_patch n i = ((i + 1) + n) mod n" by (simp add: right_patch_def)
    also have "\<dots> = (i + 1) mod n" by (rule mod_add_self2)
    also have "\<dots> = i + 1" using lt by (rule mod_less)
    finally show ?thesis using False by simp
  qed
  show ?thesis using l r by simp
qed

lemma set_bc_periodic:
  assumes ng: "0 < num_guard self"
    and bc: "boundary_condition self = ''periodic''"
    and a0: "a0 < length heap"
    and sl: "3 * num_guard self \<le> length (heap ! al)"
    and s0: "3 * num_guard self \<le> length (heap ! a0)"
    and sr: "3 * num_guard self \<le> length (heap ! ar)"
  shows "set_bc self heap al a0 ar index =
     Inr (heap[a0 := right_edge (num_guard self) (heap ! al)
                     @ interior_rows (num_guard self) (heap ! a0)
                     @ left_edge (num_guard self) (heap ! ar)])"
proof -
  let ?ng = "num_guard self"
  let ?L = "right_edge ?ng (heap ! al)"
  let ?h1 = "heap[a0 := ?L @ drop ?ng (heap ! a0)]"
  have lenL: "length ?L = ?ng" using sl by (simp add: length_right_edge)
  have sL: "py_slice (heap ! al) (Some (- 2 * int ?ng)) (Some (- int ?ng)) = ?L"
    unfolding right_edge_def by (rule py_slice_last_interior [OF ng]) (use sl in simp)
  have first: "copy_rows heap a0 None (Some (int ?ng)) al (Some (- 2 * int ?ng))
        (Some (- int ?ng)) = Inr ?h1"
    by (rule copy_rows_left_guard [OF sL lenL]) (use s0 in simp)
  have src: "py_slice (?h1 ! ar) (Some (int ?ng)) (Some (2 * int ?ng)) =
        left_edge ?ng (heap ! ar)"
  proof (cases "ar = a0")
    case True
    have "2 * ?ng \<le> length (?L @ drop ?ng (heap ! a0))" using lenL s0 by simp
    then show ?thesis
      using a0 True lenL
      by (simp add: py_slice_first_interior left_edge_def del: length_append)
  next
    case False
    then show ?thesis using sr by (simp add: py_slice_first_interior left_edge_def)
  qed
  have second: "copy_rows ?h1 a0 (Some (- int ?ng)) None ar (Some (int ?ng))
        (Some (2 * int ?ng)) =
        Inr (heap[a0 := ?L @ interior_rows ?ng (heap ! a0) @ left_edge ?ng (heap ! ar)])"
    by (rule fill_guards [OF ng a0 s0 lenL src]) (use sr in \<open>simp add: length_left_edge\<close>)
  show ?thesis
    unfolding set_bc_def Let_def using bc first second by simp
qed

lemma set_bc_outflow:
  assumes ng: "0 < num_guard self"
    and bc: "boundary_condition self = ''outflow''"
    and a0: "a0 < length heap"
    and sl: "3 * num_guard self \<le> length (heap ! al)"
    and s0: "3 * num_guard self \<le> length (heap ! a0)"
    and sr: "3 * num_guard self \<le> length (heap ! ar)"
  shows "set_bc self heap al a0 ar index =
     Inr (heap[a0 := (if index = 0 then left_edge (num_guard self) (heap ! a0)
                      else right_edge (num_guard self) (heap ! al))
                     @ interior_rows (num_guard self) (heap ! a0)
                     @ (if int index = int (length (patches self)) - 1
                        then right_edge (num_guard self) (heap ! a0)
                        else left_edge (num_guard self) (heap ! ar))])"
proof -
  let ?ng = "num_guard self"
  let ?L = "if index = 0 then left_edge ?ng (heap ! a0) else right_edge ?ng (heap ! al)"
  let ?R = "if int index = int (length (patches self)) - 1
            then right_edge ?ng (heap ! a0) else left_edge ?ng (heap ! ar)"
  let ?h1 = "heap[a0 := ?L @ drop ?ng (heap ! a0)]"
  have lenL: "length ?L = ?ng"
    using sl s0 by (simp add: length_right_edge length_left_edge)
  have lenR: "length ?R = ?ng"
    using sr s0 by (simp add: length_right_edge length_left_edge)
  have first: "(if index = 0
        then copy_rows heap a0 None (Some (int ?ng)) a0 (Some (int ?ng)) (Some (2 * int ?ng))
        else copy_rows heap a0 None (Some (int ?ng)) al (Some (- 2 * int ?ng))
               (Some (- int ?ng))) = Inr ?h1"
  proof (cases "index = 0")
    case True
    have "copy_rows heap a0 None (Some (int ?ng)) a0 (Some (int ?ng)) (Some (2 * int ?ng)) =
        Inr (heap[a0 := left_edge ?ng (heap ! a0) @ drop ?ng (heap ! a0)])"
      by (rule copy_rows_left_guard)
         (use s0 in \<open>simp_all add: py_slice_first_interior left_edge_def\<close>)
    then show ?thesis using True by simp
  next
    case False
    have sL: "py_slice (heap ! al) (Some (- 2 * int ?ng)) (Some (- int ?ng)) =
        right_edge ?ng (heap ! al)"
      unfolding right_edge_def by (rule py_slice_last_interior [OF ng]) (use sl in simp)
    have "copy_rows heap a0 None (Some (int ?ng)) al (Some (- 2 * int ?ng))
        (Some (- int ?ng)) = Inr (heap[a0 := right_edge ?ng (heap ! al) @ drop ?ng (heap ! a0)])"
      by (rule copy_rows_left_guard [OF sL]) (use sl s0 in \<open>simp_all add: length_right_edge\<close>)
    then show ?thesis using False by simp
  qed
  have h1: "?h1 ! a0 = ?L @ drop ?ng (heap ! a0)" using a0 by simp
  have len1: "2 * ?ng \<le> length (?L @ drop ?ng (heap ! a0))" using lenL s0 by simp
  have own: "py_slice (?h1 ! a0) (Some (- 2 * int ?ng)) (Some (- int ?ng)) =
        right_edge ?ng (heap ! a0)"
    unfolding h1 py_slice_last_interior [OF ng len1]
    using right_edge_after_left_guard [OF lenL s0] by (simp add: right_edge_def)
  have nbr: "py_slice (?h1 ! ar) (Some (int ?ng)) (Some (2 * int ?ng)) =
        left_edge ?ng (heap ! ar)"
  proof (cases "ar = a0")
    case True
    show ?thesis
      unfolding True h1 py_slice_first_interior [OF len1]
      using left_edge_after_left_guard [OF lenL, of "heap ! a0"] by (simp add: left_edge_def)
  next
    case False
    then show ?thesis using sr by (simp add: py_slice_first_interior left_edge_def)
  qed
  have second: "(if int index = int (length (patches self)) - 1
        then copy_rows ?h1 a0 (Some (- int ?ng)) None a0 (Some (- 2 * int ?ng))
               (Some (- int ?ng))
        else copy_rows ?h1 a0 (Some (- int ?ng)) None ar (Some (int ?ng))
               (Some (2 * int ?ng))) =
        Inr (heap[a0 := ?L @ interior_rows ?ng (heap ! a0) @ ?R])"
  proof (cases "int index = int (length (patches self)) - 1")
    case True
    have "copy_rows ?h1 a0 (Some (- int ?ng)) None a0 (Some (- 2 * int ?ng))
        (Some (- int ?ng)) =
        Inr (heap[a0 := ?L @ interior_rows ?ng (heap ! a0) @ right_edge ?ng (heap ! a0)])"
      by (rule fill_guards [OF ng a0 s0 lenL own]) (use s0 in \<open>simp add: length_right_edge\<close>)
    then show ?thesis using True by simp
  next
    case False
    have "copy_rows ?h1 a0 (Some (- int ?ng)) None ar (Some (int ?ng)) (Some (2 * int ?ng)) =
        Inr (heap[a0 := ?L @ interior_rows ?ng (heap ! a0) @ left_edge ?ng (heap ! ar)])"
      by (rule fill_guards [OF ng a0 s0 lenL nbr]) (use sr in \<open>simp add: length_left_edge\<close>)
    then show ?thesis using False by simp
  qed
  show ?thesis
    unfolding set_bc_def Let_def using bc first second by simp
qed

lemma set_bc_invalid:
  "boundary_condition self \<notin> {''periodic'', ''outflow''} \<Longrightarrow>
   set_bc self heap al a0 ar index = Inl ValueError"
  by (simp add: set_bc_def)

lemma write_back_patch:
  assumes "i < length ps"
  shows "map (\<lambda>(p, a, c). p\<lparr>primitive1 := a, conserved1 := c\<rparr>)
           (zip ps (zip ((map primitive1 ps)[i := A]) ((map conserved1 ps)[i := C]))) =
         ps[i := (ps ! i)\<lparr>primitive1 := A, conserved1 := C\<rparr>]"
proof (rule nth_equalityI)
  show "length (map (\<lambda>(p, a, c). p\<lparr>primitive1 := a, conserved1 := c\<rparr>)
           (zip ps (zip ((map primitive1 ps)[i := A]) ((map conserved1 ps)[i := C])))) =
        length (ps[i := (ps ! i)\<lparr>primitive1 := A, conserved1 := C\<rparr>])"
    by simp
next
  fix j
  assume "j < length (map (\<lambda>(p, a, c). p\<lparr>primitive1 := a, conserved1 := c\<rparr>)
           (zip ps (zip ((map primitive1 ps)[i := A]) ((map conserved1 ps)[i := C]))))"
  then have j: "j < length ps" by simp
  show "map (\<lambda>(p, a, c). p\<lparr>primitive1 := a, conserved1 := c\<rparr>)
           (zip ps (zip ((map primitive1 ps)[i := A]) ((map conserved1 ps)[i := C]))) ! j =
        ps[i := (ps ! i)\<lparr>primitive1 := A, conserved1 := C\<rparr>] ! j"
    using j assms by (cases "j = i") simp_all
qed

lemma exchange_step_written:
  assumes i: "i < length (patches self)"
    and p: "set_bc self (map primitive1 (patches self))
              (left_patch (length (patches self)) i) i
              (right_patch (length (patches self)) i) i =
            Inr ((map primitive1 (patches self))[i := A])"
    and c: "set_bc self (map conserved1 (patches self))
              (left_patch (length (patches self)) i) i
              (right_patch (length (patches self)) i) i =
            Inr ((map conserved1 (patches self))[i := C])"
  shows "exchange_step self i =
           Inr (self\<lparr>patches :=
                  (patches self)[i := (patches self ! i)\<lparr>primitive1 := A, conserved1 := C\<rparr>]\<rparr>)"
  by (simp add: exchange_step_def Let_def p c write_back_patch [OF i])

lemma set_bc_field_periodic:
  assumes ng: "0 < num_guard self"
    and bc: "boundary_condition self = ''periodic''"
    and i: "i < length ps" and l: "l < length ps" and r: "r < length ps"
    and sz: "\<And>j. j < length ps \<Longrightarrow> 3 * num_guard self \<le> length (fld (ps ! j))"
  shows "set_bc self (map fld ps) l i r index =
     Inr ((map fld ps)[i := right_edge (num_guard self) (fld (ps ! l))
                            @ interior_rows (num_guard self) (fld (ps ! i))
                            @ left_edge (num_guard self) (fld (ps ! r))])"
  using set_bc_periodic [OF ng bc, of i "map fld ps" l r index] i l r sz by simp

lemma set_bc_field_outflow:
  assumes ng: "0 < num_guard self"
    and bc: "boundary_condition self = ''outflow''"
    and i: "i < length ps" and l: "l < length ps" and r: "r < length ps"
    and sz: "\<And>j. j < length ps \<Longrightarrow> 3 * num_guard self \<le> length (fld (ps ! j))"
  shows "set_bc self (map fld ps) l i r index =
     Inr ((map fld ps)[i := (if index = 0 then left_edge (num_guard self) (fld (ps ! i))
                             else right_edge (num_guard self) (fld (ps ! l)))
                            @ interior_rows (num_guard self) (fld (ps ! i))
                            @ (if int index = int (length (patches self)) - 1
                               then right_edge (num_guard self) (fld (ps ! i))
                               else left_edge (num_guard self) (fld (ps ! r)))])"
  using set_bc_outflow [OF ng bc, of i "map fld ps" l r index] i l r sz by simp

text \<open>
  C5. One exchange of \<^verbatim>\<open>Solver.advance_rk\<close> for patch \<open>i\<close> of a ring of \<open>n\<close> patches that
  hold at least \<^verbatim>\<open>num_guard\<close> interior zones each. The left neighbour is patch \<open>i - 1\<close>,
  or patch \<open>n - 1\<close> for \<open>i = 0\<close>; the right neighbour is patch \<open>i + 1\<close>, or patch \<open>0\<close> for
  \<open>i = n - 1\<close>. Under \<^verbatim>\<open>periodic\<close> the left guard of \<^verbatim>\<open>primitive1\<close> and of
  \<^verbatim>\<open>conserved1\<close> becomes the last interior rows of the left neighbour and the right guard
  the first interior rows of the right neighbour. Under \<^verbatim>\<open>outflow\<close> the same holds,
  except that the left guard of patch \<open>0\<close> becomes the first interior rows of the patch
  itself and the right guard of patch \<open>n - 1\<close> its last interior rows. The interior rows
  and the other patches are kept. Any other boundary condition raises \<^verbatim>\<open>ValueError\<close>.
\<close>

theorem set_bc_boundary_exchange:
  assumes ng: "0 < num_guard self"
    and i: "i < length (patches self)"
    and size: "\<forall>p \<in> set (patches self).
                 3 * num_guard self \<le> length (primitive1 p) \<and>
                 3 * num_guard self \<le> length (conserved1 p)"
  shows
    "(let ng = num_guard self;
          ps = patches self;
          n = length ps;
          l = (if i = 0 then n - 1 else i - 1);
          r = (if i = n - 1 then 0 else i + 1);
          periodic = (\<lambda>a. right_edge ng (a (ps ! l)) @ interior_rows ng (a (ps ! i))
                           @ left_edge ng (a (ps ! r)));
          outflow = (\<lambda>a. (if i = 0 then left_edge ng (a (ps ! i))
                          else right_edge ng (a (ps ! l)))
                         @ interior_rows ng (a (ps ! i))
                         @ (if i = n - 1 then right_edge ng (a (ps ! i))
                            else left_edge ng (a (ps ! r))))
      in left_patch n i = l \<and> right_patch n i = r \<and>
         (boundary_condition self = ''periodic'' \<longrightarrow>
            exchange_step self i =
              Inr (self\<lparr>patches := ps[i := (ps ! i)\<lparr>primitive1 := periodic primitive1,
                                                    conserved1 := periodic conserved1\<rparr>]\<rparr>)) \<and>
         (boundary_condition self = ''outflow'' \<longrightarrow>
            exchange_step self i =
              Inr (self\<lparr>patches := ps[i := (ps ! i)\<lparr>primitive1 := outflow primitive1,
                                                    conserved1 := outflow conserved1\<rparr>]\<rparr>)) \<and>
         (boundary_condition self \<notin> {''periodic'', ''outflow''} \<longrightarrow>
            exchange_step self i = Inl ValueError \<and>
            (\<forall>heap al a0 ar index. set_bc self heap al a0 ar index = Inl ValueError)))"
proof -
  let ?ng = "num_guard self"
  let ?ps = "patches self"
  let ?n = "length ?ps"
  let ?l = "if i = 0 then ?n - 1 else i - 1"
  let ?r = "if i = ?n - 1 then 0 else i + 1"
  have nb: "left_patch ?n i = ?l" "right_patch ?n i = ?r"
    using ring_neighbours [OF i] by simp_all
  have l: "?l < ?n" and r: "?r < ?n" using i by auto
  have sz: "\<And>j. j < ?n \<Longrightarrow> 3 * ?ng \<le> length (primitive1 (?ps ! j)) \<and>
                              3 * ?ng \<le> length (conserved1 (?ps ! j))"
    using size by simp
  have last: "(int i = int ?n - 1) = (i = ?n - 1)" using i by auto
  have szp: "\<And>j. j < ?n \<Longrightarrow> 3 * ?ng \<le> length (primitive1 (?ps ! j))"
    and szc: "\<And>j. j < ?n \<Longrightarrow> 3 * ?ng \<le> length (conserved1 (?ps ! j))"
    using sz by simp_all
  have per: "exchange_step self i =
      Inr (self\<lparr>patches := ?ps[i := (?ps ! i)
        \<lparr>primitive1 := right_edge ?ng (primitive1 (?ps ! ?l))
                         @ interior_rows ?ng (primitive1 (?ps ! i))
                         @ left_edge ?ng (primitive1 (?ps ! ?r)),
         conserved1 := right_edge ?ng (conserved1 (?ps ! ?l))
                         @ interior_rows ?ng (conserved1 (?ps ! i))
                         @ left_edge ?ng (conserved1 (?ps ! ?r))\<rparr>]\<rparr>)"
    if bc: "boundary_condition self = ''periodic''"
  proof (rule exchange_step_written [OF i]; unfold nb)
    show "set_bc self (map primitive1 ?ps) ?l i ?r i =
        Inr ((map primitive1 ?ps)[i := right_edge ?ng (primitive1 (?ps ! ?l))
                         @ interior_rows ?ng (primitive1 (?ps ! i))
                         @ left_edge ?ng (primitive1 (?ps ! ?r))])"
      by (rule set_bc_field_periodic [where fld = primitive1 and ps = "patches self",
            OF ng bc i l r szp])
    show "set_bc self (map conserved1 ?ps) ?l i ?r i =
        Inr ((map conserved1 ?ps)[i := right_edge ?ng (conserved1 (?ps ! ?l))
                         @ interior_rows ?ng (conserved1 (?ps ! i))
                         @ left_edge ?ng (conserved1 (?ps ! ?r))])"
      by (rule set_bc_field_periodic [where fld = conserved1 and ps = "patches self",
            OF ng bc i l r szc])
  qed
  have out: "exchange_step self i =
      Inr (self\<lparr>patches := ?ps[i := (?ps ! i)
        \<lparr>primitive1 := (if i = 0 then left_edge ?ng (primitive1 (?ps ! i))
                          else right_edge ?ng (primitive1 (?ps ! ?l)))
                         @ interior_rows ?ng (primitive1 (?ps ! i))
                         @ (if i = ?n - 1 then right_edge ?ng (primitive1 (?ps ! i))
                            else left_edge ?ng (primitive1 (?ps ! ?r))),
         conserved1 := (if i = 0 then left_edge ?ng (conserved1 (?ps ! i))
                          else right_edge ?ng (conserved1 (?ps ! ?l)))
                         @ interior_rows ?ng (conserved1 (?ps ! i))
                         @ (if i = ?n - 1 then right_edge ?ng (conserved1 (?ps ! i))
                            else left_edge ?ng (conserved1 (?ps ! ?r)))\<rparr>]\<rparr>)"
    if bc: "boundary_condition self = ''outflow''"
  proof (rule exchange_step_written [OF i]; unfold nb)
    show "set_bc self (map primitive1 ?ps) ?l i ?r i =
        Inr ((map primitive1 ?ps)[i := (if i = 0 then left_edge ?ng (primitive1 (?ps ! i))
                          else right_edge ?ng (primitive1 (?ps ! ?l)))
                         @ interior_rows ?ng (primitive1 (?ps ! i))
                         @ (if i = ?n - 1 then right_edge ?ng (primitive1 (?ps ! i))
                            else left_edge ?ng (primitive1 (?ps ! ?r)))])"
      using set_bc_field_outflow [where fld = primitive1 and ps = "patches self" and index = i,
          OF ng bc i l r szp]
      unfolding last .
    show "set_bc self (map conserved1 ?ps) ?l i ?r i =
        Inr ((map conserved1 ?ps)[i := (if i = 0 then left_edge ?ng (conserved1 (?ps ! i))
                          else right_edge ?ng (conserved1 (?ps ! ?l)))
                         @ interior_rows ?ng (conserved1 (?ps ! i))
                         @ (if i = ?n - 1 then right_edge ?ng (conserved1 (?ps ! i))
                            else left_edge ?ng (conserved1 (?ps ! ?r)))])"
      using set_bc_field_outflow [where fld = conserved1 and ps = "patches self" and index = i,
          OF ng bc i l r szc]
      unfolding last .
  qed
  have bad: "exchange_step self i = Inl ValueError \<and>
      (\<forall>heap al a0 ar index. set_bc self heap al a0 ar index = Inl ValueError)"
    if "boundary_condition self \<notin> {''periodic'', ''outflow''}"
    using set_bc_invalid [OF that] by (simp add: exchange_step_def Let_def)
  show ?thesis
    unfolding Let_def
  proof (intro conjI impI)
    show "left_patch ?n i = ?l" by (rule nb(1))
    show "right_patch ?n i = ?r" by (rule nb(2))
  qed ((rule per out, assumption) | (use bad in blast))+
qed

theorem set_bc_boundary_exchange_witness:
  "(let P = (\<lambda>a. \<lparr>num_zones = 6, faces = [], coordinates = 0, scale_factor_initial = 1,
                    scale_factor_derivative = 0, time = 0, time0 = 0, primitive1 = a,
                    conserved0 = a, conserved1 = a, conserved2 = a\<rparr>);
        A = [[1], [2], [3], [4], [5], [6]];
        B = [[7], [8], [9], [10], [11], [12]];
        S = \<lparr>boundary_condition = ''periodic'', num_guard = 2, num_cons = 1,
             solver_num_zones = 4, patches = [P A, P B]\<rparr>
    in 0 < num_guard S \<and> 0 < length (patches S) \<and>
       exchange_step S 0 =
         Inr (S\<lparr>patches :=
                [(P A)\<lparr>primitive1 := [[9], [10], [3], [4], [9], [10]],
                        conserved1 := [[9], [10], [3], [4], [9], [10]]\<rparr>, P B]\<rparr>))"
proof -
  define P :: "arr \<Rightarrow> patch" where
    "P = (\<lambda>a. \<lparr>num_zones = 6, faces = [], coordinates = 0, scale_factor_initial = 1,
               scale_factor_derivative = 0, time = 0, time0 = 0, primitive1 = a,
               conserved0 = a, conserved1 = a, conserved2 = a\<rparr>)"
  define A :: arr where "A = [[1], [2], [3], [4], [5], [6]]"
  define B :: arr where "B = [[7], [8], [9], [10], [11], [12]]"
  define S where "S = \<lparr>boundary_condition = ''periodic'', num_guard = 2, num_cons = 1,
             solver_num_zones = 4, patches = [P A, P B]\<rparr>"
  have ng: "0 < num_guard S" by (simp add: S_def)
  have i: "0 < length (patches S)" by (simp add: S_def)
  have size: "\<forall>p \<in> set (patches S).
      3 * num_guard S \<le> length (primitive1 p) \<and> 3 * num_guard S \<le> length (conserved1 p)"
    by (simp add: S_def P_def A_def B_def)
  have bc: "boundary_condition S = ''periodic''" by (simp add: S_def)
  have edges: "right_edge 2 B = [[9], [10]]" "left_edge 2 B = [[9], [10]]"
    "interior_rows 2 A = [[3], [4]]"
    by (simp_all add: right_edge_def left_edge_def interior_rows_def A_def B_def)
  have "exchange_step S 0 =
      Inr (S\<lparr>patches := [(P A)\<lparr>primitive1 := [[9], [10], [3], [4], [9], [10]],
                                 conserved1 := [[9], [10], [3], [4], [9], [10]]\<rparr>, P B]\<rparr>)"
    using set_bc_boundary_exchange [OF ng i size, unfolded Let_def] bc
    by (simp add: S_def P_def edges)
  then show ?thesis
    using ng i unfolding Let_def S_def P_def A_def B_def by simp
qed

text \<open>
  A ring of two patches with one interior zone each, as the constructor builds them
  for two zones on two patches: five rows, of which only the middle one is interior.
  Under \<^verbatim>\<open>periodic\<close> the guards of patch 0 receive the rows \<open>7, 8\<close> and \<open>8, 9\<close> of patch
  1, and the rows \<open>7\<close> and \<open>9\<close> are guard rows of patch 1, not interior rows.
\<close>

theorem set_bc_copies_neighbour_guard_rows:
  "set_bc
     \<lparr>boundary_condition = ''periodic'', num_guard = 2, num_cons = 1, solver_num_zones = 2,
        patches =
          [\<lparr>num_zones = 5, faces = [], coordinates = 0, scale_factor_initial = 1,
            scale_factor_derivative = 0, time = 0, time0 = 0, primitive1 = [[1], [2], [3], [4], [5]],
            conserved0 = [[1], [2], [3], [4], [5]],
            conserved1 = [[1], [2], [3], [4], [5]],
            conserved2 = [[1], [2], [3], [4], [5]]\<rparr>,
           \<lparr>num_zones = 5, faces = [], coordinates = 0, scale_factor_initial = 1,
            scale_factor_derivative = 0, time = 0, time0 = 0, primitive1 = [[6], [7], [8], [9], [10]],
            conserved0 = [[6], [7], [8], [9], [10]],
            conserved1 = [[6], [7], [8], [9], [10]],
            conserved2 = [[6], [7], [8], [9], [10]]\<rparr>]\<rparr>
     [[[1], [2], [3], [4], [5]], [[6], [7], [8], [9], [10]]] 1 0 1 0 =
     Inr [[[7], [8], [3], [8], [9]], [[6], [7], [8], [9], [10]]] \<and>
   interior_rows 2 [[6], [7], [8], [9], [10]] = [[8]] \<and>
   [7] \<notin> set (interior_rows 2 [[6], [7], [8], [9], [10]]) \<and>
   [9] \<notin> set (interior_rows 2 [[6], [7], [8], [9], [10]])"
  by (simp add: set_bc_def copy_rows_def assign_slice_def py_slice_def slice_range_def
      slice_bound_def Let_def interior_rows_def)

end
